theory Spec2Isabelle
  imports Complex_Main
begin

section \<open>The persistent store (Prisma tables) behind BlockProxy\<close>

text \<open>
  The rows of the relational store that \<^verbatim>\<open>block-proxy.ts\<close> queries through the Prisma
  client. Row ids are the autoincrement integers; timestamps are the integers of the
  TimestampProvider; the \<^verbatim>\<open>order\<close> key of a line is a rational, so that a line can be
  inserted between two neighbours. The many-to-many relation between blocks and lines
  is kept on the line (\<open>l_blocks\<close>: the ids of the blocks the line is connected to).
\<close>

datatype VersionType = IMPORTED | PRE_INSERTION | INSERTION | CHANGE | DELETION | CLONE

datatype BlockType = ROOT | INLINE | CLONE_BLOCK

record Version =
  v_id :: nat
  v_lineId :: nat
  v_timestamp :: int
  v_type :: VersionType
  v_isActive :: bool
  v_content :: string
  v_originId :: "nat option"
  v_sourceBlockId :: "nat option"

record Line =
  l_id :: nat
  l_fileId :: nat
  l_order :: rat
  l_blocks :: "nat list"

text \<open>
  A block, as a row of the store and as the \<^verbatim>\<open>BlockProxy\<close> object made for the row. A row
  is written with a timestamp. The proxy's \<^verbatim>\<open>_timestamp\<close> is assigned by
  \<^verbatim>\<open>setTimestamp\<close> and \<^verbatim>\<open>setTimestampManually\<close> only (the constructor takes the row's
  timestamp and does not assign it), so the field is optional: \<open>None\<close> is \<^verbatim>\<open>undefined\<close>.
\<close>

record Block =
  b_id :: nat
  b_blockId :: string
  b_fileId :: nat
  b_type :: BlockType
  b_timestamp :: "int option"
  b_parentId :: "nat option"
  b_originId :: "nat option"

record Tag =
  t_id :: nat
  t_tagId :: string
  t_blockId :: nat
  t_name :: string
  t_timestamp :: int
  t_code :: string

record File =
  f_id :: nat
  f_eol :: string

text \<open>
  The store, with the counters of the autoincrement keys and the process-wide
  TimestampProvider (\<open>clock\<close> is the last timestamp handed out).
\<close>

record DB =
  files :: "File list"
  lines :: "Line list"
  versions :: "Version list"
  blockRows :: "Block list"
  tags :: "Tag list"
  nextLineId :: nat
  nextVersionId :: nat
  nextBlockId :: nat
  clock :: int

text \<open>
  What the code can raise: the explicit \<^verbatim>\<open>throw new Error(...)\<close> of the sources, Prisma's
  NotFoundError (\<^verbatim>\<open>findFirstOrThrow\<close>, \<^verbatim>\<open>findUniqueOrThrow\<close>), and the TypeError of
  JavaScript on reading a property of \<^verbatim>\<open>undefined\<close> or \<^verbatim>\<open>null\<close>.
\<close>

datatype error =
    IndexOutOfBounds
  | NotFoundError
  | TypeError
  | NoActiveLines
  | LatestHeadNotInTimeline
  | InvalidLineNumber
  | LineNotFound

subsection \<open>Prisma queries as list functions\<close>

definition findFirst :: "'a list \<Rightarrow> 'a option" where
  "findFirst xs = (case xs of [] \<Rightarrow> None | x # _ \<Rightarrow> Some x)"

definition findFirstOrThrow :: "'a list \<Rightarrow> error + 'a" where
  "findFirstOrThrow xs = (case xs of [] \<Rightarrow> Inl NotFoundError | x # _ \<Rightarrow> Inr x)"

text \<open>JavaScript's \<^verbatim>\<open>array[i]\<close> for a number \<open>i\<close>: \<^verbatim>\<open>undefined\<close> outside the array.\<close>

definition arrayAt :: "'a list \<Rightarrow> int \<Rightarrow> 'a option" where
  "arrayAt xs i = (if 0 \<le> i \<and> i < int (length xs) then Some (xs ! nat i) else None)"

definition lineOf :: "DB \<Rightarrow> nat \<Rightarrow> Line option" where
  "lineOf db lid = find (\<lambda>l. l_id l = lid) (lines db)"

text \<open>The relation filter \<^verbatim>\<open>line: { blocks: { some: { id: this.id } } }\<close>.\<close>

definition lineInBlock :: "DB \<Rightarrow> Block \<Rightarrow> nat \<Rightarrow> bool" where
  "lineInBlock db b lid =
     (case lineOf db lid of None \<Rightarrow> False | Some l \<Rightarrow> b_id b \<in> set (l_blocks l))"

text \<open>The relation filter
  \<^verbatim>\<open>line: { fileId: this.file.id, blocks: { some: { id: this.id } } }\<close>.\<close>

definition lineInFileBlock :: "DB \<Rightarrow> Block \<Rightarrow> nat \<Rightarrow> bool" where
  "lineInFileBlock db b lid =
     (case lineOf db lid of None \<Rightarrow> False
      | Some l \<Rightarrow> l_fileId l = b_fileId b \<and> b_id b \<in> set (l_blocks l))"

text \<open>The sort key of \<^verbatim>\<open>orderBy: { line: { order: ... } }\<close>.\<close>

definition lineOrder :: "DB \<Rightarrow> Version \<Rightarrow> rat" where
  "lineOrder db v = (case lineOf db (v_lineId v) of None \<Rightarrow> 0 | Some l \<Rightarrow> l_order l)"

fun maxOf :: "int list \<Rightarrow> int" where
  "maxOf [] = 0"
| "maxOf (x # xs) = fold max xs x"

fun minOf :: "int list \<Rightarrow> int" where
  "minOf [] = 0"
| "minOf (x # xs) = fold min xs x"

text \<open>\<^verbatim>\<open>groupBy({ by: ["lineId"], _max: { timestamp: true } })\<close> and its \<^verbatim>\<open>_min\<close> twin:
  one aggregate per line id that occurs.\<close>

definition groupByMax :: "Version list \<Rightarrow> (nat \<times> int) list" where
  "groupByMax vs =
     map (\<lambda>lid. (lid, maxOf (map v_timestamp (filter (\<lambda>v. v_lineId v = lid) vs))))
         (remdups (map v_lineId vs))"

definition groupByMin :: "Version list \<Rightarrow> (nat \<times> int) list" where
  "groupByMin vs =
     map (\<lambda>lid. (lid, minOf (map v_timestamp (filter (\<lambda>v. v_lineId v = lid) vs))))
         (remdups (map v_lineId vs))"

text \<open>\<^verbatim>\<open>where: { OR: heads }\<close> for a list of \<^verbatim>\<open>{ lineId, timestamp }\<close> pairs; an empty
  \<^verbatim>\<open>OR\<close> matches no row.\<close>

definition matchesHead :: "(nat \<times> int) list \<Rightarrow> Version \<Rightarrow> bool" where
  "matchesHead heads v = ((v_lineId v, v_timestamp v) \<in> set heads)"

text \<open>A filter whose value is \<^verbatim>\<open>undefined\<close>, as \<^verbatim>\<open>timestamp: { lte: undefined }\<close>, is no
  filter: Prisma leaves it out of the query.\<close>

definition lteFilter :: "int \<Rightarrow> int option \<Rightarrow> bool" where
  "lteFilter x bound = (case bound of None \<Rightarrow> True | Some t \<Rightarrow> x \<le> t)"

definition gtFilter :: "int \<Rightarrow> int option \<Rightarrow> bool" where
  "gtFilter x bound = (case bound of None \<Rightarrow> True | Some t \<Rightarrow> t < x)"

subsection \<open>BlockProxy: the proxy of a row\<close>

text \<open>\<^verbatim>\<open>loadFrom\<close> builds the proxy of a row; the constructor leaves \<^verbatim>\<open>_timestamp\<close>
  unassigned. \<^verbatim>\<open>setTimestampManually\<close> assigns it.\<close>

definition loadFrom :: "Block \<Rightarrow> Block" where
  "loadFrom block = block\<lparr>b_timestamp := None\<rparr>"

definition setTimestampManually :: "Block \<Rightarrow> int \<Rightarrow> Block" where
  "setTimestampManually b newTimestamp = b\<lparr>b_timestamp := Some newTimestamp\<rparr>"

subsection \<open>BlockProxy: heads\<close>

definition potentiallyActiveHeads :: "DB \<Rightarrow> Block \<Rightarrow> (nat \<times> int) list" where
  "potentiallyActiveHeads db b =
     groupByMax (filter (\<lambda>v. lineInFileBlock db b (v_lineId v) \<and>
                             lteFilter (v_timestamp v) (b_timestamp b))
                        (versions db))"

definition preInsertionHeads :: "DB \<Rightarrow> Block \<Rightarrow> (nat \<times> int) list" where
  "preInsertionHeads db b =
     groupByMin (filter (\<lambda>v. lineInFileBlock db b (v_lineId v) \<and>
                             v_lineId v \<notin> set (map fst (potentiallyActiveHeads db b)))
                        (versions db))"

definition getHeads :: "DB \<Rightarrow> Block \<Rightarrow> Version list" where
  "getHeads db b =
     sort_key (lineOrder db)
       (filter (matchesHead (potentiallyActiveHeads db b @ preInsertionHeads db b)) (versions db))"

definition getActiveHeads :: "DB \<Rightarrow> Block \<Rightarrow> Version list" where
  "getActiveHeads db b =
     sort_key (lineOrder db)
       (filter (\<lambda>v. matchesHead (potentiallyActiveHeads db b) v \<and> v_isActive v) (versions db))"

definition getActiveLineCount :: "DB \<Rightarrow> Block \<Rightarrow> nat" where
  "getActiveLineCount db b =
     length (filter (\<lambda>v. matchesHead (potentiallyActiveHeads db b) v \<and> v_isActive v) (versions db))"

definition getActiveLines :: "DB \<Rightarrow> Block \<Rightarrow> Line list" where
  "getActiveLines db b =
     sort_key l_order
       (filter (\<lambda>l. \<exists>(lid, ts) \<in> set (potentiallyActiveHeads db b).
                      l_id l = lid \<and>
                      (\<exists>v \<in> set (versions db). v_lineId v = l_id l \<and> v_timestamp v = ts \<and> v_isActive v))
               (lines db))"

definition getHeadFor :: "DB \<Rightarrow> Block \<Rightarrow> Line \<Rightarrow> error + Version" where
  "getHeadFor db b line =
     (case findFirst (sort_key (\<lambda>v. - v_timestamp v)
                        (filter (\<lambda>v. v_lineId v = l_id line \<and>
                                     lteFilter (v_timestamp v) (b_timestamp b))
                                (versions db))) of
        Some head \<Rightarrow> Inr head
      | None \<Rightarrow>
          findFirstOrThrow (sort_key v_timestamp
                              (filter (\<lambda>v. lineInFileBlock db b (v_lineId v)) (versions db))))"

subsection \<open>BlockProxy: counts, timeline and the current version\<close>

definition getChildren :: "DB \<Rightarrow> Block \<Rightarrow> Block list" where
  "getChildren db b = filter (\<lambda>c. b_parentId c = Some (b_id b)) (blockRows db)"

definition getChildrenCount :: "DB \<Rightarrow> Block \<Rightarrow> nat" where
  "getChildrenCount db b = length (getChildren db b)"

definition getLines :: "DB \<Rightarrow> Block \<Rightarrow> Line list" where
  "getLines db b = sort_key l_order (filter (\<lambda>l. b_id b \<in> set (l_blocks l)) (lines db))"

definition getLineCount :: "DB \<Rightarrow> Block \<Rightarrow> nat" where
  "getLineCount db b = length (filter (\<lambda>l. b_id b \<in> set (l_blocks l)) (lines db))"

definition getVersionCount :: "DB \<Rightarrow> Block \<Rightarrow> nat" where
  "getVersionCount db b =
     length (filter (\<lambda>v. lineInBlock db b (v_lineId v) \<and> v_type v \<noteq> CLONE) (versions db))"

definition getOriginalLineCount :: "DB \<Rightarrow> Block \<Rightarrow> nat" where
  "getOriginalLineCount db b =
     length (filter (\<lambda>v. lineInBlock db b (v_lineId v) \<and> v_type v = IMPORTED) (versions db))"

definition getTags :: "DB \<Rightarrow> Block \<Rightarrow> Tag list" where
  "getTags db b = filter (\<lambda>t. t_blockId t = b_id b) (tags db)"

definition getLastImportedVersion :: "DB \<Rightarrow> Block \<Rightarrow> Version option" where
  "getLastImportedVersion db b =
     findFirst (sort_key (\<lambda>v. - v_timestamp v)
                  (filter (\<lambda>v. lineInFileBlock db b (v_lineId v) \<and> v_type v = IMPORTED)
                          (versions db)))"

definition getCurrentVersion :: "DB \<Rightarrow> Block \<Rightarrow> error + Version" where
  "getCurrentVersion db b =
     findFirstOrThrow (sort_key (\<lambda>v. - lineOrder db v)
                         (filter (matchesHead (potentiallyActiveHeads db b)) (versions db)))"

definition getTimelineIndexFor :: "DB \<Rightarrow> Block \<Rightarrow> Version \<Rightarrow> nat" where
  "getTimelineIndexFor db b version =
     length (filter (\<lambda>v. lineInFileBlock db b (v_lineId v) \<and>
                         v_type v \<notin> {IMPORTED, CLONE} \<and>
                         v_timestamp v < v_timestamp version)
                    (versions db))"

definition getTimeline :: "DB \<Rightarrow> Block \<Rightarrow> Version list" where
  "getTimeline db b =
     (let lastImportedLine = getLastImportedVersion db b
      in sort_key v_timestamp
           (filter (\<lambda>v. lineInFileBlock db b (v_lineId v) \<and>
                        v_type v \<noteq> CLONE \<and>
                        (case lastImportedLine of
                           None \<Rightarrow> True
                         | Some li \<Rightarrow> v_timestamp li \<le> v_timestamp v))
                   (versions db)))"

subsection \<open>BlockProxy: applying a timestamp or a timeline index\<close>

text \<open>
  \<^verbatim>\<open>setTimestamp\<close> updates the block's row (an \<^verbatim>\<open>undefined\<close> timestamp leaves the row as
  it is), and then assigns the timestamp of the updated row to the proxy's own
  \<^verbatim>\<open>_timestamp\<close>: \<open>proxyAfter\<close> is the proxy after the call. An operation returns its
  outcome together with the store it leaves behind, so that what an operation that
  throws has written is part of its result.
\<close>

definition setTimestamp :: "DB \<Rightarrow> Block \<Rightarrow> int option \<Rightarrow> DB" where
  "setTimestamp db b newTimestamp =
     (case newTimestamp of
        None \<Rightarrow> db
      | Some t \<Rightarrow>
          db\<lparr>blockRows := map (\<lambda>r. if b_id r = b_id b then r\<lparr>b_timestamp := Some t\<rparr> else r)
                               (blockRows db)\<rparr>)"

definition proxyAfter :: "DB \<Rightarrow> Block \<Rightarrow> Block" where
  "proxyAfter db b =
     (case find (\<lambda>r. b_id r = b_id b) (blockRows db) of
        None \<Rightarrow> b
      | Some updatedBlock \<Rightarrow> b\<lparr>b_timestamp := b_timestamp updatedBlock\<rparr>)"

definition applyTimestamp :: "DB \<Rightarrow> Block \<Rightarrow> int \<Rightarrow> DB" where
  "applyTimestamp db b t = setTimestamp db b (Some t)"

definition applyIndex :: "DB \<Rightarrow> Block \<Rightarrow> int \<Rightarrow> (error + unit) \<times> DB" where
  "applyIndex db b targetIndex =
     (let timeline = getTimeline db b
      in if targetIndex < 0 \<or> targetIndex \<ge> int (length timeline)
         then (Inl IndexOutOfBounds, db)
         else (let selectedVersion = timeline ! nat targetIndex
               in (Inr (), applyTimestamp db b (v_timestamp selectedVersion))))"

text \<open>The row of a block.\<close>

definition blockRow :: "DB \<Rightarrow> nat \<Rightarrow> Block option" where
  "blockRow db bid = find (\<lambda>r. b_id r = bid) (blockRows db)"

subsection \<open>BlockProxy: children\<close>

text \<open>
  \<^verbatim>\<open>getLinesInRange\<close>: the heads in line order, the active ones among them, the first
  and the last active head of the range, and every head (active or not) whose line lies
  between the two. \<^verbatim>\<open>activeVersions[i]\<close> is \<^verbatim>\<open>undefined\<close> outside the array, and the
  filter's callback then reads \<^verbatim>\<open>firstVersion.line\<close> (for the first head) or
  \<^verbatim>\<open>lastVersion.line\<close> (at the latest when it reaches the first version itself), which
  is a TypeError; with no head at all the callback never runs.
\<close>

record VCSBlockRange =
  startLine :: int
  endLine :: int

definition getLinesInRange :: "DB \<Rightarrow> Block \<Rightarrow> VCSBlockRange \<Rightarrow> error + nat list" where
  "getLinesInRange db b rng =
     (let vs = getHeads db b;
          activeVersions = filter v_isActive vs
      in if vs = [] then Inr []
         else (case (arrayAt activeVersions (startLine rng - 1),
                     arrayAt activeVersions (endLine rng - 1)) of
                 (Some firstVersion, Some lastVersion) \<Rightarrow>
                   Inr (map v_lineId
                          (filter (\<lambda>v. lineOrder db firstVersion \<le> lineOrder db v \<and>
                                       lineOrder db v \<le> lineOrder db lastVersion) vs))
               | _ \<Rightarrow> Inl TypeError))"

function showNat :: "nat \<Rightarrow> string" where
  "showNat n = (if n < 10 then [char_of (48 + n)]
                else showNat (n div 10) @ [char_of (48 + n mod 10)])"
  by pat_completeness auto
termination
  by (relation "measure id") auto

text \<open>\<^verbatim>\<open>lines: { connect: [...] }\<close> on a block: the lines of these ids gain the block.\<close>

definition connectLines :: "nat \<Rightarrow> nat list \<Rightarrow> Line list \<Rightarrow> Line list" where
  "connectLines bid ids ls =
     map (\<lambda>l. if l_id l \<in> set ids \<and> bid \<notin> set (l_blocks l)
               then l\<lparr>l_blocks := l_blocks l @ [bid]\<rparr> else l) ls"

text \<open>\<^verbatim>\<open>inlineCopy\<close> creates the row of the child with the proxy's timestamp and returns
  the proxy that \<^verbatim>\<open>BlockProxy.getFor\<close> gives for the row (through the ProxyCache, which is
  not among the sources): the model returns the created row. With the proxy's timestamp
  \<^verbatim>\<open>undefined\<close> the row is created without one (what the store then does depends on the
  schema, which is not among the sources either).\<close>

definition inlineCopy :: "DB \<Rightarrow> Block \<Rightarrow> nat list \<Rightarrow> Block \<times> DB" where
  "inlineCopy db b lineIds =
     (let childrenCount = getChildrenCount db b;
          block = \<lparr> b_id = nextBlockId db,
                    b_blockId = b_blockId b @ '':inline'' @ showNat childrenCount,
                    b_fileId = b_fileId b,
                    b_type = INLINE,
                    b_timestamp = b_timestamp b,
                    b_parentId = Some (b_id b),
                    b_originId = None \<rparr>
      in (block, db\<lparr>blockRows := blockRows db @ [block],
                     lines := connectLines (b_id block) lineIds (lines db),
                     nextBlockId := Suc (nextBlockId db)\<rparr>))"

definition claimsAnyOf :: "DB \<Rightarrow> nat list \<Rightarrow> Block \<Rightarrow> bool" where
  "claimsAnyOf db lineIds c =
     (\<exists>l \<in> set (lines db). b_id c \<in> set (l_blocks l) \<and> l_id l \<in> set lineIds)"

definition createChild :: "DB \<Rightarrow> Block \<Rightarrow> VCSBlockRange \<Rightarrow> (error + Block option) \<times> DB" where
  "createChild db b rng =
     (case getLinesInRange db b rng of
        Inl e \<Rightarrow> (Inl e, db)
      | Inr linesInRange \<Rightarrow>
          (case findFirst (filter (\<lambda>c. b_parentId c = Some (b_id b) \<and> claimsAnyOf db linesInRange c)
                                  (blockRows db)) of
             Some overlappingChild \<Rightarrow> (Inr None, db)
           | None \<Rightarrow> (let (child, db') = inlineCopy db b linesInRange in (Inr (Some child), db'))))"

subsection \<open>BlockProxy: block info\<close>

record VCSTagInfo =
  ti_blockId :: "string \<times> string"
  ti_tagId :: string
  ti_name :: string
  ti_text :: string
  ti_automaticSuggestion :: bool

record VCSBlockInfo =
  bi_blockId :: "string \<times> string"
  bi_type :: BlockType
  bi_range :: VCSBlockRange
  bi_versionCount :: int
  bi_versionIndex :: nat
  bi_tags :: "VCSTagInfo list"

text \<open>The lines before the block's first line that are not the block's, with their
  heads at the parent's timestamp: \<^verbatim>\<open>potentiallyActiveHeadsBeforeBlock\<close>. The parent
  proxy \<^verbatim>\<open>this.parent\<close> is read from the parent's row.\<close>

definition potentiallyActiveHeadsBeforeBlock ::
  "DB \<Rightarrow> Block \<Rightarrow> Line \<Rightarrow> int option \<Rightarrow> (nat \<times> int) list" where
  "potentiallyActiveHeadsBeforeBlock db b firstLine parentTimestamp =
     groupByMax (filter (\<lambda>v. (case lineOf db (v_lineId v) of
                                  None \<Rightarrow> False
                                | Some l \<Rightarrow> l_fileId l = b_fileId b \<and> b_id b \<notin> set (l_blocks l) \<and>
                                            l_order l < l_order firstLine) \<and>
                              lteFilter (v_timestamp v) parentTimestamp)
                        (versions db))"

definition asBlockInfo :: "DB \<Rightarrow> string \<Rightarrow> Block \<Rightarrow> error + VCSBlockInfo" where
  "asBlockInfo db fileId b =
     (let originalLineCount = getOriginalLineCount db b;
          activeLineCount = getActiveLineCount db b;
          versionCount = getVersionCount db b;
          lastImportedVersion = getLastImportedVersion db b
      in case findFirstOrThrow
                (sort_key l_order
                   (filter (\<lambda>l. l_fileId l = b_fileId b \<and> b_id b \<in> set (l_blocks l)) (lines db))) of
           Inl e \<Rightarrow> Inl e
         | Inr firstLine \<Rightarrow>
        (case getCurrentVersion db b of
           Inl e \<Rightarrow> Inl e
         | Inr currentVersion \<Rightarrow>
        if activeLineCount = 0 then Inl NoActiveLines
        else
        (let userVersionCount =
               int versionCount - int originalLineCount +
               (case lastImportedVersion of Some li \<Rightarrow> 1 | None \<Rightarrow> 0);
             blockId = (fileId, b_blockId b);
             tagInfo = map (\<lambda>t. \<lparr> ti_blockId = blockId, ti_tagId = t_tagId t, ti_name = t_name t,
                                   ti_text = t_code t, ti_automaticSuggestion = False \<rparr>)
                           (getTags db b);
             info = (\<lambda>activeLinesBeforeBlock.
                       \<lparr> bi_blockId = blockId,
                         bi_type = b_type b,
                         bi_range = \<lparr> startLine = int activeLinesBeforeBlock + 1,
                                      endLine = int activeLinesBeforeBlock + int activeLineCount \<rparr>,
                         bi_versionCount = userVersionCount,
                         bi_versionIndex = getTimelineIndexFor db b currentVersion,
                         bi_tags = tagInfo \<rparr>)
         in case b_parentId b of
              None \<Rightarrow> Inr (info 0)
            | Some pid \<Rightarrow>
               (case blockRow db pid of
                  None \<Rightarrow> Inl NotFoundError
                | Some parent \<Rightarrow>
                    Inr (info (length
                      (filter (\<lambda>v. matchesHead (potentiallyActiveHeadsBeforeBlock db b firstLine
                                                     (b_timestamp parent)) v \<and> v_isActive v)
                              (versions db))))))))"

subsection \<open>BlockProxy: inserting lines\<close>

text \<open>
  Modelled from the spec: \<^verbatim>\<open>TimestampProvider.getTimestamp\<close> (metadata/timestamps.ts is
  not among the sources). The spec has it produce strictly increasing integers from a
  single process-wide source; the model hands out the successor of the last one.
\<close>

definition getTimestamp :: "DB \<Rightarrow> int \<times> DB" where
  "getTimestamp db = (clock db + 1, db\<lparr>clock := clock db + 1\<rparr>)"

text \<open>
  Modelled from the spec: \<^verbatim>\<open>FileProxy.insertLines\<close> (file-proxy.ts is not among the
  sources). The spec's insertion primitive allocates, for each content, a fresh Line
  whose order lies strictly between its neighbours (prepend and append at the edges),
  with two Versions: a hidden PRE_INSERTION at a timestamp \<open>t\<close> and the INSERTION with
  the content at \<open>t + 1\<close>, both with the editing block as source; the editing block's
  timestamp is advanced to the INSERTION, so that the line is visible in it. Each
  further content is inserted after the line just created.
\<close>

fun file_insertLines ::
  "DB \<Rightarrow> Block \<Rightarrow> string list \<Rightarrow> Line option \<Rightarrow> Line option \<Rightarrow> DB \<times> (nat \<times> Version \<times> Version) list"
where
  "file_insertLines db sourceBlock [] previous nxt = (db, [])"
| "file_insertLines db sourceBlock (c # cs) previous nxt =
     (let ord = (case (previous, nxt) of
                   (Some p, Some n) \<Rightarrow> (l_order p + l_order n) / 2
                 | (Some p, None) \<Rightarrow> l_order p + 1
                 | (None, Some n) \<Rightarrow> l_order n - 1
                 | (None, None) \<Rightarrow> 1);
          line = \<lparr> l_id = nextLineId db, l_fileId = b_fileId sourceBlock, l_order = ord, l_blocks = [] \<rparr>;
          v0 = \<lparr> v_id = nextVersionId db, v_lineId = l_id line, v_timestamp = clock db + 1,
                 v_type = PRE_INSERTION, v_isActive = False, v_content = [],
                 v_originId = None, v_sourceBlockId = Some (b_id sourceBlock) \<rparr>;
          v1 = \<lparr> v_id = Suc (nextVersionId db), v_lineId = l_id line, v_timestamp = clock db + 2,
                 v_type = INSERTION, v_isActive = True, v_content = c,
                 v_originId = None, v_sourceBlockId = Some (b_id sourceBlock) \<rparr>;
          db1 = setTimestamp
                  (db\<lparr>lines := lines db @ [line],
                      versions := versions db @ [v0, v1],
                      nextLineId := Suc (nextLineId db),
                      nextVersionId := Suc (Suc (nextVersionId db)),
                      clock := clock db + 2\<rparr>)
                  sourceBlock (Some (clock db + 2));
          (db2, rest) = file_insertLines db1 sourceBlock cs (Some line) nxt
      in (db2, (l_id line, v0, v1) # rest))"

datatype BlockReference = Previous | Next

text \<open>\<^verbatim>\<open>LineProxy.getBlocks\<close>: the blocks the line is connected to.\<close>

definition getBlocks :: "DB \<Rightarrow> nat \<Rightarrow> Block list" where
  "getBlocks db lid =
     (case lineOf db lid of
        None \<Rightarrow> []
      | Some l \<Rightarrow> filter (\<lambda>r. b_id r \<in> set (l_blocks l)) (blockRows db))"

text \<open>\<^verbatim>\<open>LineProxy.addBlocks\<close>: connects the blocks of the head map to the line. (BlockProxy
  derives heads from timestamps and never reads the head rows the call also writes.)\<close>

definition addBlocks :: "DB \<Rightarrow> nat \<Rightarrow> nat list \<Rightarrow> DB" where
  "addBlocks db lid bids =
     db\<lparr>lines := map (\<lambda>l. if l_id l = lid
                            then l\<lparr>l_blocks := l_blocks l @ filter (\<lambda>i. i \<notin> set (l_blocks l)) (remdups bids)\<rparr>
                            else l) (lines db)\<rparr>"

definition insertLines ::
  "DB \<Rightarrow> Block \<Rightarrow> string list \<Rightarrow> Line option \<Rightarrow> Line option \<Rightarrow> BlockReference option
     \<Rightarrow> DB \<times> (nat \<times> Version \<times> Version) list" where
  "insertLines db b lineContents previous nxt blockReference =
     (let (db1, created) = file_insertLines db b lineContents previous nxt
      in case blockReference of
           None \<Rightarrow> (db1, created)
         | Some r \<Rightarrow>
            (let blockReferenceLine =
                   (case r of
                      Previous \<Rightarrow> (case previous of Some p \<Rightarrow> Some p | None \<Rightarrow> nxt)
                    | Next \<Rightarrow> (case nxt of Some n \<Rightarrow> Some n | None \<Rightarrow> previous))
             in case blockReferenceLine of
                  None \<Rightarrow> (db1, created)
                | Some rl \<Rightarrow>
                    (let blocks = getBlocks db1 (l_id rl)
                     in (fold (\<lambda>(lid, v0, v1) d. addBlocks d lid (map b_id blocks)) created db1,
                         created))))"

definition prependLines ::
  "DB \<Rightarrow> Block \<Rightarrow> string list \<Rightarrow> (error + (nat \<times> Version \<times> Version) list) \<times> DB" where
  "prependLines db b lineContents =
     (case findFirstOrThrow
             (sort_key l_order
                (filter (\<lambda>l. l_fileId l = b_fileId b \<and> b_id b \<in> set (l_blocks l)) (lines db))) of
        Inl e \<Rightarrow> (Inl e, db)
      | Inr nextLine \<Rightarrow>
          (let previousLine =
                 findFirst (sort_key (\<lambda>l. - l_order l)
                    (filter (\<lambda>l. l_fileId l = b_fileId b \<and> b_id b \<notin> set (l_blocks l) \<and>
                                 l_order l < l_order nextLine) (lines db)));
               (db', created) = insertLines db b lineContents previousLine (Some nextLine) (Some Next)
           in (Inr created, db')))"

definition appendLines ::
  "DB \<Rightarrow> Block \<Rightarrow> string list \<Rightarrow> (error + (nat \<times> Version \<times> Version) list) \<times> DB" where
  "appendLines db b lineContents =
     (case findFirstOrThrow
             (sort_key (\<lambda>l. - l_order l)
                (filter (\<lambda>l. l_fileId l = b_fileId b \<and> b_id b \<in> set (l_blocks l)) (lines db))) of
        Inl e \<Rightarrow> (Inl e, db)
      | Inr previousLine \<Rightarrow>
          (let nextLine =
                 findFirst (sort_key l_order
                    (filter (\<lambda>l. l_fileId l = b_fileId b \<and> b_id b \<notin> set (l_blocks l) \<and>
                                 l_order previousLine < l_order l) (lines db)));
               (db', created) = insertLines db b lineContents (Some previousLine) nextLine (Some Previous)
           in (Inr created, db')))"

definition insertLinesAt ::
  "DB \<Rightarrow> Block \<Rightarrow> int \<Rightarrow> string list \<Rightarrow> (error + nat list) \<times> DB" where
  "insertLinesAt db b lineNumber lineContents =
     (let lastLineNumber = int (getActiveLineCount db b);
          newLastLine = lastLineNumber + 1;
          insertionLineNumber = min (max lineNumber 1) newLastLine
      in if insertionLineNumber = 1 then
           (case prependLines db b lineContents of
              (Inl e, db') \<Rightarrow> (Inl e, db')
            | (Inr created, db') \<Rightarrow> (Inr (map fst created), db'))
         else if insertionLineNumber = newLastLine then
           (case appendLines db b lineContents of
              (Inl e, db') \<Rightarrow> (Inl e, db')
            | (Inr created, db') \<Rightarrow> (Inr (map fst created), db'))
         else
           (let activeLines = getActiveLines db b
            in case (arrayAt activeLines (insertionLineNumber - 2),
                     arrayAt activeLines (insertionLineNumber - 1)) of
                 (Some previousLine, Some currentLine) \<Rightarrow>
                   (let (db', created) =
                          insertLines db b lineContents (Some previousLine) (Some currentLine)
                                      (Some Previous)
                    in (Inr (map fst created), db'))
               | _ \<Rightarrow> (Inl TypeError, db)))"

text \<open>\<^verbatim>\<open>insertLineAt\<close> returns \<^verbatim>\<open>lines[0]\<close>, which is \<^verbatim>\<open>undefined\<close> for an empty array.\<close>

definition insertLineAt ::
  "DB \<Rightarrow> Block \<Rightarrow> int \<Rightarrow> string \<Rightarrow> (error + nat option) \<times> DB" where
  "insertLineAt db b lineNumber c =
     (case insertLinesAt db b lineNumber [c] of
        (Inl e, db') \<Rightarrow> (Inl e, db')
      | (Inr created, db') \<Rightarrow> (Inr (findFirst created), db'))"

subsection \<open>BlockProxy: the edit engine\<close>

text \<open>
  The string functions of JavaScript the edit engine uses. A string is the list of its
  code units, here the code units below 256. The white space \<^verbatim>\<open>trimStart\<close> and \<^verbatim>\<open>trim\<close>
  remove is the WhiteSpace and LineTerminator of ECMAScript; among the code units below
  256 these are tab, line feed, vertical tab, form feed, carriage return, space and the
  no-break space U+00A0.
\<close>

definition startsWith :: "string \<Rightarrow> string \<Rightarrow> bool" where
  "startsWith s p = (take (length p) s = p)"

definition endsWith :: "string \<Rightarrow> string \<Rightarrow> bool" where
  "endsWith s p = (length p \<le> length s \<and> drop (length s - length p) s = p)"

definition isWhiteSpace :: "char \<Rightarrow> bool" where
  "isWhiteSpace c = (c \<in> {CHR 0x20, CHR 0x09, CHR 0x0A, CHR 0x0B, CHR 0x0C, CHR 0x0D, CHR 0xA0})"

definition trimStart :: "string \<Rightarrow> string" where
  "trimStart s = dropWhile isWhiteSpace s"

definition trim :: "string \<Rightarrow> string" where
  "trim s = rev (dropWhile isWhiteSpace (rev (dropWhile isWhiteSpace s)))"

function splitAux :: "string \<Rightarrow> string \<Rightarrow> string \<Rightarrow> string list" where
  "splitAux sep acc [] = [rev acc]"
| "splitAux sep acc (c # cs) =
     (if sep \<noteq> [] \<and> take (length sep) (c # cs) = sep
      then rev acc # splitAux sep [] (drop (length sep) (c # cs))
      else splitAux sep (c # acc) cs)"
  by pat_completeness auto
termination
  by (relation "measure (\<lambda>(sep, acc, s). length s)") auto

text \<open>\<^verbatim>\<open>s.split(sep)\<close>: with an empty separator, the code units one by one.\<close>

definition split :: "string \<Rightarrow> string \<Rightarrow> string list" where
  "split s sep = (if sep = [] then map (\<lambda>c. [c]) s else splitAux sep [] s)"

record ModifiedRange =
  startLineNumber :: int
  startColumn :: int
  endLineNumber :: int
  endColumn :: int

record MultiLineChange =
  modifiedRange :: ModifiedRange
  insertedText :: string
  lineText :: string

text \<open>The two local functions of \<^verbatim>\<open>changeLines\<close>: each takes a fresh timestamp, records the
  line as affected and writes one Version. The state threaded through is the store, the
  affected lines and the latest timestamp.\<close>

definition deleteLine ::
  "Block \<Rightarrow> nat \<Rightarrow> DB \<times> nat list \<times> int option \<Rightarrow> DB \<times> nat list \<times> int option" where
  "deleteLine block lid st =
     (case st of (db, affectedLines, latestTimestamp) \<Rightarrow>
        (let (t, db1) = getTimestamp db;
             v = \<lparr> v_id = nextVersionId db1, v_lineId = lid, v_timestamp = t, v_type = DELETION,
                   v_isActive = False, v_content = [], v_originId = None,
                   v_sourceBlockId = Some (b_id block) \<rparr>
         in (db1\<lparr>versions := versions db1 @ [v], nextVersionId := Suc (nextVersionId db1)\<rparr>,
             affectedLines @ [lid], Some t)))"

definition updateLine ::
  "Block \<Rightarrow> nat \<times> string \<Rightarrow> DB \<times> nat list \<times> int option \<Rightarrow> DB \<times> nat list \<times> int option" where
  "updateLine block lc st =
     (case st of (db, affectedLines, latestTimestamp) \<Rightarrow>
        (let (t, db1) = getTimestamp db;
             v = \<lparr> v_id = nextVersionId db1, v_lineId = fst lc, v_timestamp = t, v_type = CHANGE,
                   v_isActive = True, v_content = snd lc, v_originId = None,
                   v_sourceBlockId = Some (b_id block) \<rparr>
         in (db1\<lparr>versions := versions db1 @ [v], nextVersionId := Suc (nextVersionId db1)\<rparr>,
             affectedLines @ [fst lc], Some t)))"

text \<open>\<^verbatim>\<open>LineProxy.getBlockIds\<close>: the string ids of the blocks the line is connected to.\<close>

definition getBlockIds :: "DB \<Rightarrow> nat \<Rightarrow> string list" where
  "getBlockIds db lid = map b_blockId (getBlocks db lid)"

text \<open>The elements of a JavaScript \<^verbatim>\<open>Set\<close> in insertion order.\<close>

definition setOrder :: "'a list \<Rightarrow> 'a list" where
  "setOrder xs = rev (remdups (rev xs))"

definition changeLines ::
  "DB \<Rightarrow> string \<Rightarrow> Block \<Rightarrow> MultiLineChange \<Rightarrow> (error + (string \<times> string) list) \<times> DB" where
  "changeLines db fileId b change =
     (case find (\<lambda>f. f_id f = b_fileId b) (files db) of
        None \<Rightarrow> (Inl NotFoundError, db)
      | Some file \<Rightarrow>
     (let eol = f_eol file;
          heads = getHeads db b;
          activeHeads = filter v_isActive heads;
          splitChangeString = split (insertedText change) eol;
          mr = modifiedRange change
      in case arrayAt activeHeads (startLineNumber mr - 1) of
           None \<Rightarrow> (Inl TypeError, db)
         | Some startHead \<Rightarrow>
     (let startLineContent = v_content startHead;
          insertedBeforeCode =
            (startColumn mr \<le> int (length startLineContent) - int (length (trimStart startLineContent)) + 1);
          startsWithEol = startsWith (insertedText change) eol
      in if \<not> endsWith (insertedText change) eol \<and> splitChangeString = [] then (Inl TypeError, db)
         else
     (let endsWithEol = (endsWith (insertedText change) eol \<or>
                         length (trim (last splitChangeString)) = 0);
          insertedAtStartOfStartLine = insertedBeforeCode;
          insertedAtEndOfStartLine = (int (length startLineContent) < startColumn mr);
          oneLineModification = (startLineNumber mr = endLineNumber mr);
          oneLineInsertOnly = (oneLineModification \<and> startColumn mr = endColumn mr);
          pushStartLineDown = (insertedAtStartOfStartLine \<and> endsWithEol);
          pushStartLineUp = (insertedAtEndOfStartLine \<and> startsWithEol);
          noModifications = (oneLineInsertOnly \<and> (pushStartLineUp \<or> pushStartLineDown));
          splitLines = split (lineText change) eol;
          modifiedLines = (if pushStartLineUp then drop 1 splitLines
                           else if pushStartLineDown then butlast splitLines
                           else splitLines);
          rangeStart = (if pushStartLineUp then startLineNumber mr + 1 else startLineNumber mr);
          rangeEnd = (if \<not> pushStartLineUp \<and> pushStartLineDown then endLineNumber mr - 1
                      else endLineNumber mr);
          vcsLines = (if noModifications then []
                      else map (v_lineId \<circ> snd)
                             (filter (\<lambda>(index, h). rangeStart \<le> int index + 1 \<and> int index + 1 \<le> rangeEnd)
                                     (enumerate 0 activeHeads)));
          st0 = (db, [], b_timestamp b);
          st1 = fold (deleteLine b) (rev (drop (length modifiedLines) vcsLines)) st0;
          st2 = fold (updateLine b) (zip vcsLines modifiedLines) st1
      in case st2 of (db2, affectedLines, latestTimestamp) \<Rightarrow>
     (let db3 = setTimestamp db2 b latestTimestamp;
          b3 = proxyAfter db3 b;
          linesToInsert = drop (length vcsLines) modifiedLines
      in case insertLinesAt db3 b3 (rangeStart + int (length vcsLines)) linesToInsert of
           (Inl e, db4) \<Rightarrow> (Inl e, db4)
         | (Inr created, db4) \<Rightarrow>
             (Inr (map (\<lambda>i. (fileId, i)) (setOrder (concat (map (getBlockIds db4) affectedLines)))),
              db4))))))"

subsection \<open>BlockProxy: cloning outdated heads\<close>

definition cloneOutdatedHeads :: "DB \<Rightarrow> Block \<Rightarrow> DB" where
  "cloneOutdatedHeads db b =
     (let heads = getHeads db b;
          linesToUpdate =
            filter (\<lambda>l. l_fileId l = b_fileId b \<and> b_id b \<in> set (l_blocks l) \<and>
                        (\<exists>v \<in> set (versions db). v_lineId v = l_id l \<and>
                                                gtFilter (v_timestamp v) (b_timestamp b)))
                   (lines db);
          headsToClone = filter (\<lambda>h. \<exists>l \<in> set linesToUpdate. l_id l = v_lineId h) heads
      in if headsToClone = [] then db
         else (let (cloneTimestamp, db1) = getTimestamp db;
                   clones = map (\<lambda>(i, h). \<lparr> v_id = i, v_lineId = v_lineId h,
                                            v_timestamp = cloneTimestamp, v_type = CLONE,
                                            v_isActive = v_isActive h, v_content = v_content h,
                                            v_originId = Some (v_id h),
                                            v_sourceBlockId = Some (b_id b) \<rparr>)
                                (enumerate (nextVersionId db1) headsToClone)
               in setTimestamp
                    (db1\<lparr>versions := versions db1 @ clones,
                         nextVersionId := nextVersionId db1 + length clones\<rparr>)
                    b (Some cloneTimestamp)))"

subsection \<open>DBBlock: the timeline of the earlier persistent block\<close>


section \<open>The in-memory Block of core/block.ts\<close>

text \<open>
  The in-memory \<^verbatim>\<open>Block\<close> is a linked list of \<^verbatim>\<open>Line\<close>s; each line owns the list of its
  versions and points to its current version (its head in this block). A version
  object is the record of its fields together with its identity \<open>nv_id\<close>, so that
  \<^verbatim>\<open>===\<close> on two versions is the equality of their records. \<^verbatim>\<open>version.previous\<close> and
  \<^verbatim>\<open>version.next\<close> are the neighbours of the version in the history of its line.
\<close>

record LineNodeVersion =
  nv_id :: nat
  nv_timestamp :: int
  nv_isActive :: bool
  nv_content :: string
  nv_isPreInsertion :: bool

record MLine =
  ml_node :: nat
  ml_history :: "LineNodeVersion list"
  ml_currentVersion :: LineNodeVersion
  ml_isInserted :: bool

record MTag =
  mt_id :: string
  mt_timestamp :: int

record MBlock =
  mb_id :: string
  mb_eol :: string
  mb_lines :: "MLine list"
  mb_tags :: "(string \<times> MTag) list"
  mb_enableVersionMerging :: bool
  mb_lastModifiedLine :: "nat option"

fun previousIn :: "LineNodeVersion list \<Rightarrow> LineNodeVersion \<Rightarrow> LineNodeVersion option" where
  "previousIn (a # b # xs) v = (if b = v then Some a else previousIn (b # xs) v)"
| "previousIn xs v = None"

fun nextIn :: "LineNodeVersion list \<Rightarrow> LineNodeVersion \<Rightarrow> LineNodeVersion option" where
  "nextIn (a # b # xs) v = (if a = v then Some b else nextIn (b # xs) v)"
| "nextIn xs v = None"

definition historyOf :: "MBlock \<Rightarrow> LineNodeVersion \<Rightarrow> LineNodeVersion list" where
  "historyOf blk v =
     (case find (\<lambda>l. v \<in> set (ml_history l)) (mb_lines blk) of
        None \<Rightarrow> []
      | Some l \<Rightarrow> ml_history l)"

definition previousOf :: "MBlock \<Rightarrow> LineNodeVersion \<Rightarrow> LineNodeVersion option" where
  "previousOf blk v = previousIn (historyOf blk v) v"

definition nextOf :: "MBlock \<Rightarrow> LineNodeVersion \<Rightarrow> LineNodeVersion option" where
  "nextOf blk v = nextIn (historyOf blk v) v"

definition resetVersionMerging :: "MBlock \<Rightarrow> MBlock" where
  "resetVersionMerging blk = blk\<lparr>mb_lastModifiedLine := None\<rparr>"

definition mGetActiveLines :: "MBlock \<Rightarrow> MLine list" where
  "mGetActiveLines blk = filter (\<lambda>l. nv_isActive (ml_currentVersion l)) (mb_lines blk)"

text \<open>\<^verbatim>\<open>array.join(separator)\<close>.\<close>

fun joinWith :: "string \<Rightarrow> string list \<Rightarrow> string" where
  "joinWith sep [] = []"
| "joinWith sep [x] = x"
| "joinWith sep (x # y # ys) = x @ sep @ joinWith sep (y # ys)"

definition getCurrentText :: "MBlock \<Rightarrow> string" where
  "getCurrentText blk =
     joinWith (mb_eol blk) (map (\<lambda>l. nv_content (ml_currentVersion l)) (mGetActiveLines blk))"

definition getVersions :: "MBlock \<Rightarrow> LineNodeVersion list" where
  "getVersions blk = concat (map ml_history (mb_lines blk))"

definition mGetVersionCount :: "MBlock \<Rightarrow> nat" where
  "mGetVersionCount blk = length (getVersions blk)"

definition mGetLineCount :: "MBlock \<Rightarrow> nat" where
  "mGetLineCount blk = length (mb_lines blk)"

definition mGetHeads :: "MBlock \<Rightarrow> LineNodeVersion list" where
  "mGetHeads blk = map ml_currentVersion (mb_lines blk)"

definition mGetOriginalLineCount :: "MBlock \<Rightarrow> nat" where
  "mGetOriginalLineCount blk = length (filter (\<lambda>l. \<not> ml_isInserted l) (mb_lines blk))"

definition getUserVersionCount :: "MBlock \<Rightarrow> int" where
  "getUserVersionCount blk = int (mGetVersionCount blk) - int (mGetLineCount blk) + 1"

text \<open>The timeline: the versions that do not follow a pre-insertion version, by
  timestamp, without the first \<open>originalLineCount - 1\<close> of them (\<^verbatim>\<open>splice\<close> removes
  nothing for a count that is not positive).\<close>

definition followsPreInsertion :: "MBlock \<Rightarrow> LineNodeVersion \<Rightarrow> bool" where
  "followsPreInsertion blk v =
     (case previousOf blk v of None \<Rightarrow> False | Some p \<Rightarrow> nv_isPreInsertion p)"

definition mGetTimeline :: "MBlock \<Rightarrow> LineNodeVersion list" where
  "mGetTimeline blk =
     drop (mGetOriginalLineCount blk - 1)
          (sort_key nv_timestamp (filter (\<lambda>v. \<not> followsPreInsertion blk v) (getVersions blk)))"

definition mGetCurrentVersion :: "MBlock \<Rightarrow> LineNodeVersion option" where
  "mGetCurrentVersion blk =
     findFirst (sort_key (\<lambda>v. - nv_timestamp v)
                  (filter (\<lambda>head. \<not> nv_isPreInsertion head) (mGetHeads blk)))"

text \<open>\<^verbatim>\<open>timeline.indexOf(v, 0)\<close>, \<open>None\<close> for \<^verbatim>\<open>-1\<close>.\<close>

fun indexOf :: "'a list \<Rightarrow> 'a \<Rightarrow> nat option" where
  "indexOf [] v = None"
| "indexOf (x # xs) v = (if x = v then Some 0 else map_option Suc (indexOf xs v))"

definition getCurrentVersionIndex :: "MBlock \<Rightarrow> error + nat" where
  "getCurrentVersionIndex blk =
     (case mGetCurrentVersion blk of
        None \<Rightarrow> Inl TypeError
      | Some cv \<Rightarrow>
          (let currentVersion = (case previousOf blk cv of
                                   Some p \<Rightarrow> if nv_isPreInsertion p then p else cv
                                 | None \<Rightarrow> cv)
           in case indexOf (mGetTimeline blk) currentVersion of
                None \<Rightarrow> Inl LatestHeadNotInTimeline
              | Some index \<Rightarrow> Inr index))"

text \<open>
  \<^verbatim>\<open>version.ts\<close> and \<^verbatim>\<open>line.ts\<close> are not among the sources: what
  \<^verbatim>\<open>version.insertionState(block)\<close>, \<^verbatim>\<open>version.isHeadOf(block)\<close> and
  \<^verbatim>\<open>line.loadTimestamp(timestamp)\<close> compute is a parameter of the functions that call
  them. Of the enumeration \<^verbatim>\<open>InsertionState\<close> the code names two members.
\<close>

datatype InsertionState = PreInsertionEngaged | PreInsertionReleased | OtherInsertionState

record VersionOps =
  insertionState :: "MBlock \<Rightarrow> LineNodeVersion \<Rightarrow> InsertionState"
  isHeadOf :: "MBlock \<Rightarrow> LineNodeVersion \<Rightarrow> bool"
  loadTimestamp :: "int \<Rightarrow> MLine \<Rightarrow> MLine"

definition mApplyTimestamp :: "VersionOps \<Rightarrow> MBlock \<Rightarrow> int \<Rightarrow> MBlock" where
  "mApplyTimestamp ops blk t = blk\<lparr>mb_lines := map (loadTimestamp ops t) (mb_lines blk)\<rparr>"

text \<open>The version \<^verbatim>\<open>applyIndex\<close> chooses: \<open>None\<close> where \<^verbatim>\<open>.next\<close> is \<^verbatim>\<open>undefined\<close>.\<close>

definition chooseVersion ::
  "VersionOps \<Rightarrow> MBlock \<Rightarrow> LineNodeVersion \<Rightarrow> LineNodeVersion option \<Rightarrow> LineNodeVersion option
     \<Rightarrow> LineNodeVersion \<Rightarrow> LineNodeVersion option" where
  "chooseVersion ops blk selectedVersion previousVersion nextVersion latestVersion =
     (case (case previousVersion of
              None \<Rightarrow> None
            | Some p \<Rightarrow> if p = latestVersion \<and> insertionState ops blk p = PreInsertionEngaged
                        then Some p else None) of
        Some p \<Rightarrow> nextOf blk p
      | None \<Rightarrow>
         if (case nextVersion of
               None \<Rightarrow> False
             | Some n \<Rightarrow> n = latestVersion \<and> insertionState ops blk n = PreInsertionReleased)
         then nextVersion
         else if nv_isPreInsertion selectedVersion \<and>
                 (isHeadOf ops blk selectedVersion \<or>
                  (case nextVersion of None \<Rightarrow> False | Some n \<Rightarrow> isHeadOf ops blk n))
         then nextOf blk selectedVersion
         else Some selectedVersion)"

definition mApplyIndex :: "VersionOps \<Rightarrow> MBlock \<Rightarrow> int \<Rightarrow> (error + unit) \<times> MBlock" where
  "mApplyIndex ops blk0 targetIndex =
     (let blk = resetVersionMerging blk0;
          timeline = mGetTimeline blk
      in if targetIndex < 0 \<or> targetIndex \<ge> int (length timeline)
         then (Inl IndexOutOfBounds, blk)
         else
           (let selectedVersion = timeline ! nat targetIndex;
                previousVersion = (if targetIndex - 1 \<ge> 0 then arrayAt timeline (targetIndex - 1) else None);
                nextVersion = (if targetIndex + 1 < int (length timeline)
                               then arrayAt timeline (targetIndex + 1) else None)
            in case getCurrentVersionIndex blk of
                 Inl e \<Rightarrow> (Inl e, blk)
               | Inr latestIndex \<Rightarrow>
                   (case chooseVersion ops blk selectedVersion previousVersion nextVersion
                           (timeline ! latestIndex) of
                      None \<Rightarrow> (Inl TypeError, blk)
                    | Some version \<Rightarrow> (Inr (), mApplyTimestamp ops blk (nv_timestamp version)))))"

subsection \<open>Inserting a line into the in-memory Block\<close>

text \<open>
  \<^verbatim>\<open>Block.insertLine\<close> and the functions on line numbers it calls. The block's lines are
  the list from \<^verbatim>\<open>firstLine\<close> to \<^verbatim>\<open>lastLine\<close>; a line is active when its current version
  is. Of a child, \<^verbatim>\<open>getChildrenByPosition\<close> reads the positions of its first and its last
  line. \<^verbatim>\<open>core/line.ts\<close> is not among the sources: \<^verbatim>\<open>line.getLineNumber()\<close>,
  \<^verbatim>\<open>line.getPosition()\<close>, \<^verbatim>\<open>Line.create\<close> (with the assignment of \<^verbatim>\<open>firstLine\<close> or
  \<^verbatim>\<open>lastLine\<close> that follows it: the created line and the block after it) and the update of
  an expanded child are parameters of the functions that call them.
\<close>

record MChild =
  mc_id :: string
  mc_firstPosition :: int
  mc_lastPosition :: int

record LineOps =
  getLineNumber :: "MLine \<Rightarrow> int"
  getPosition :: "MLine \<Rightarrow> int"
  lineCreate :: "MBlock \<Rightarrow> string \<Rightarrow> MLine option \<Rightarrow> MLine option \<Rightarrow> MLine \<times> MBlock"
  expandChild :: "MChild \<Rightarrow> MLine \<Rightarrow> MBlock \<Rightarrow> MBlock"

definition mGetFirstActiveLine :: "MBlock \<Rightarrow> MLine option" where
  "mGetFirstActiveLine blk = find (\<lambda>l. nv_isActive (ml_currentVersion l)) (mb_lines blk)"

definition mGetLastActiveLine :: "MBlock \<Rightarrow> MLine option" where
  "mGetLastActiveLine blk = find (\<lambda>l. nv_isActive (ml_currentVersion l)) (rev (mb_lines blk))"

definition mGetFirstLineNumber :: "LineOps \<Rightarrow> MBlock \<Rightarrow> error + int" where
  "mGetFirstLineNumber ops blk =
     (case mGetFirstActiveLine blk of None \<Rightarrow> Inl TypeError | Some l \<Rightarrow> Inr (getLineNumber ops l))"

definition mGetLastLineNumber :: "LineOps \<Rightarrow> MBlock \<Rightarrow> error + int" where
  "mGetLastLineNumber ops blk =
     (case mGetLastActiveLine blk of None \<Rightarrow> Inl TypeError | Some l \<Rightarrow> Inr (getLineNumber ops l))"

definition containsLineNumber :: "LineOps \<Rightarrow> MBlock \<Rightarrow> int \<Rightarrow> error + bool" where
  "containsLineNumber ops blk lineNumber =
     (case mGetFirstLineNumber ops blk of
        Inl e \<Rightarrow> Inl e
      | Inr firstLineNumber \<Rightarrow>
          if firstLineNumber \<le> lineNumber
          then (case mGetLastLineNumber ops blk of
                  Inl e \<Rightarrow> Inl e
                | Inr lastLineNumber \<Rightarrow> Inr (lineNumber \<le> lastLineNumber))
          else Inr False)"

definition getLineByLineNumber :: "LineOps \<Rightarrow> MBlock \<Rightarrow> int \<Rightarrow> error + MLine" where
  "getLineByLineNumber ops blk lineNumber =
     (case containsLineNumber ops blk lineNumber of
        Inl e \<Rightarrow> Inl e
      | Inr False \<Rightarrow> Inl InvalidLineNumber
      | Inr True \<Rightarrow>
          (case find (\<lambda>line. getLineNumber ops line = lineNumber) (mb_lines blk) of
             None \<Rightarrow> Inl LineNotFound
           | Some line \<Rightarrow> Inr line))"

definition lineNumberToPosition :: "LineOps \<Rightarrow> MBlock \<Rightarrow> int \<Rightarrow> error + int" where
  "lineNumberToPosition ops blk lineNumber =
     (case containsLineNumber ops blk lineNumber of
        Inl e \<Rightarrow> Inl e
      | Inr False \<Rightarrow> Inl InvalidLineNumber
      | Inr True \<Rightarrow>
          (case getLineByLineNumber ops blk lineNumber of
             Inl e \<Rightarrow> Inl e
           | Inr line \<Rightarrow> Inr (getPosition ops line)))"

definition getChildrenByPosition :: "MChild list \<Rightarrow> int \<Rightarrow> MChild list" where
  "getChildrenByPosition children position =
     filter (\<lambda>child. mc_firstPosition child \<le> position \<and> position \<le> mc_lastPosition child) children"

definition getChildrenByLineNumber ::
  "LineOps \<Rightarrow> MChild list \<Rightarrow> MBlock \<Rightarrow> int \<Rightarrow> error + MChild list" where
  "getChildrenByLineNumber ops children blk lineNumber =
     (case lineNumberToPosition ops blk lineNumber of
        Inl e \<Rightarrow> Inl e
      | Inr position \<Rightarrow> Inr (getChildrenByPosition children position))"

fun linePrevious :: "MLine list \<Rightarrow> MLine \<Rightarrow> MLine option" where
  "linePrevious (a # b # ls) l = (if b = l then Some a else linePrevious (b # ls) l)"
| "linePrevious ls l = None"

fun lineNext :: "MLine list \<Rightarrow> MLine \<Rightarrow> MLine option" where
  "lineNext (a # b # ls) l = (if a = l then Some b else lineNext (b # ls) l)"
| "lineNext ls l = None"

definition mInsertLine ::
  "LineOps \<Rightarrow> MChild list \<Rightarrow> MBlock \<Rightarrow> int \<Rightarrow> string \<Rightarrow> (error + MLine) \<times> MBlock" where
  "mInsertLine ops children blk0 lineNumber content =
     (let blk = resetVersionMerging blk0
      in case mGetLastLineNumber ops blk of
           Inl e \<Rightarrow> (Inl e, blk)
         | Inr lastLineNumber \<Rightarrow>
     (let newLastLine = lastLineNumber + 1;
          adjustedLineNumber = min (max lineNumber 1) newLastLine
      in case getChildrenByLineNumber ops children blk (min (adjustedLineNumber - 1) lastLineNumber) of
           Inl e \<Rightarrow> (Inl e, blk)
         | Inr expandedChildren \<Rightarrow>
     (case (if adjustedLineNumber = 1
            then (case mGetFirstActiveLine blk of
                    None \<Rightarrow> Inl TypeError
                  | Some firstActive \<Rightarrow>
                      Inr (linePrevious (mb_lines blk) firstActive, Some firstActive))
            else if adjustedLineNumber = newLastLine
            then (case mGetLastActiveLine blk of
                    None \<Rightarrow> Inl TypeError
                  | Some lastActive \<Rightarrow>
                      Inr (Some lastActive, lineNext (mb_lines blk) lastActive))
            else (case getLineByLineNumber ops blk adjustedLineNumber of
                    Inl e \<Rightarrow> Inl e
                  | Inr currentLine \<Rightarrow>
                      Inr (linePrevious (mb_lines blk) currentLine, Some currentLine))) of
        Inl e \<Rightarrow> (Inl e, blk)
      | Inr (previous, nxt) \<Rightarrow>
          (let (createdLine, blk1) = lineCreate ops blk content previous nxt
           in (Inr createdLine,
               fold (\<lambda>child b. expandChild ops child createdLine b) expandedChildren blk1)))))"

subsection \<open>The absent version and line operations, from the spec\<close>

text \<open>
  Modelled from the spec: \<^verbatim>\<open>line.loadTimestamp\<close>, \<^verbatim>\<open>version.isHeadOf\<close> and
  \<^verbatim>\<open>version.insertionState\<close> (core/line.ts and core/version.ts are not among the
  sources). The spec's \<open>head_at(t)\<close> is the last Version with timestamp at most \<open>t\<close>, and
  the earliest Version of the line if there is none; loading a timestamp makes it the
  line's head. A version is the head of a block when it is the current version of one
  of the block's lines. A PRE_INSERTION version is engaged while its line is hidden
  and released while its line is visible.
\<close>

definition headAt :: "LineNodeVersion list \<Rightarrow> int \<Rightarrow> LineNodeVersion option" where
  "headAt hist t =
     (case filter (\<lambda>v. nv_timestamp v \<le> t) hist of
        [] \<Rightarrow> findFirst hist
      | v # vs \<Rightarrow> Some (last (v # vs)))"

definition specLoadTimestamp :: "int \<Rightarrow> MLine \<Rightarrow> MLine" where
  "specLoadTimestamp t l =
     (case headAt (ml_history l) t of None \<Rightarrow> l | Some v \<Rightarrow> l\<lparr>ml_currentVersion := v\<rparr>)"

definition specIsHeadOf :: "MBlock \<Rightarrow> LineNodeVersion \<Rightarrow> bool" where
  "specIsHeadOf blk v = (v \<in> set (mGetHeads blk))"

definition specInsertionState :: "MBlock \<Rightarrow> LineNodeVersion \<Rightarrow> InsertionState" where
  "specInsertionState blk v =
     (case find (\<lambda>l. v \<in> set (ml_history l)) (mb_lines blk) of
        None \<Rightarrow> OtherInsertionState
      | Some l \<Rightarrow>
          if \<not> nv_isPreInsertion v then OtherInsertionState
          else if nv_isActive (ml_currentVersion l) then PreInsertionReleased
          else PreInsertionEngaged)"

definition specOps :: VersionOps where
  "specOps = \<lparr> insertionState = specInsertionState, isHeadOf = specIsHeadOf,
               loadTimestamp = specLoadTimestamp \<rparr>"

text \<open>
  A line is loaded at timestamp \<open>t\<close> when its history is in the order of its timestamps,
  no version after the first is a PRE_INSERTION version, its head is \<open>head_at(t)\<close> of its
  history, and a head that is not a PRE_INSERTION version is stamped at or before \<open>t\<close>
  (the fallback of \<open>head_at\<close> to the earliest version is taken for a PRE_INSERTION
  version only: the line did not exist at \<open>t\<close>).
\<close>

definition loadedAt :: "int \<Rightarrow> MLine \<Rightarrow> bool" where
  "loadedAt t l \<longleftrightarrow>
     sorted (map nv_timestamp (ml_history l)) \<and>
     list_all (\<lambda>v. \<not> nv_isPreInsertion v) (tl (ml_history l)) \<and>
     headAt (ml_history l) t = Some (ml_currentVersion l) \<and>
     (nv_isPreInsertion (ml_currentVersion l) \<or> nv_timestamp (ml_currentVersion l) \<le> t)"

section \<open>The spec's wording of the claims\<close>

text \<open>
  The snap rules of \<open>apply_index\<close> as the spec words them, over any kind of version:
  \<open>sel\<close>, \<open>prev\<close> and \<open>next\<close> are the timeline entries at \<open>i\<close>, \<open>i - 1\<close> and \<open>i + 1\<close>, and
  \<open>latest\<close> is the entry at the current index. The result is the version to apply
  (\<open>None\<close> when a rule asks for a successor that does not exist).
\<close>

record 'v SnapContext =
  sc_preInsertionEngaged :: "'v \<Rightarrow> bool"
  sc_preInsertionReleased :: "'v \<Rightarrow> bool"
  sc_isPreInsertion :: "'v \<Rightarrow> bool"
  sc_isHead :: "'v \<Rightarrow> bool"
  sc_successor :: "'v \<Rightarrow> 'v option"

definition snapRule :: "'v SnapContext \<Rightarrow> 'v list \<Rightarrow> nat \<Rightarrow> 'v \<Rightarrow> 'v option" where
  "snapRule ctx timeline i latest =
     (let sel = timeline ! i;
          prev = (if 0 < i then Some (timeline ! (i - 1)) else None);
          nxt = (if Suc i < length timeline then Some (timeline ! Suc i) else None)
      in if prev = Some latest \<and> sc_preInsertionEngaged ctx latest then sc_successor ctx latest
         else if nxt = Some latest \<and> sc_preInsertionReleased ctx latest then nxt
         else if sc_isPreInsertion ctx sel \<and>
                 (sc_isHead ctx sel \<or> (case nxt of None \<Rightarrow> False | Some n \<Rightarrow> sc_isHead ctx n))
         then sc_successor ctx sel
         else Some sel)"

definition memContext :: "VersionOps \<Rightarrow> MBlock \<Rightarrow> LineNodeVersion SnapContext" where
  "memContext ops blk =
     \<lparr> sc_preInsertionEngaged = (\<lambda>v. insertionState ops blk v = PreInsertionEngaged),
       sc_preInsertionReleased = (\<lambda>v. insertionState ops blk v = PreInsertionReleased),
       sc_isPreInsertion = nv_isPreInsertion,
       sc_isHead = isHeadOf ops blk,
       sc_successor = nextOf blk \<rparr>"

text \<open>The same notions over the store: a version is a head of the block when
  \<^verbatim>\<open>getHeads\<close> returns it, its successor is the next version of its line, a
  PRE_INSERTION head is engaged, and a PRE_INSERTION whose successor is a head is
  released.\<close>

definition successorOf :: "DB \<Rightarrow> Version \<Rightarrow> Version option" where
  "successorOf db v =
     findFirst (sort_key v_timestamp
                  (filter (\<lambda>w. v_lineId w = v_lineId v \<and> v_timestamp v < v_timestamp w) (versions db)))"

definition dbContext :: "DB \<Rightarrow> Block \<Rightarrow> Version SnapContext" where
  "dbContext db b =
     \<lparr> sc_preInsertionEngaged = (\<lambda>v. v_type v = PRE_INSERTION \<and> v \<in> set (getHeads db b)),
       sc_preInsertionReleased =
         (\<lambda>v. v_type v = PRE_INSERTION \<and>
              (case successorOf db v of None \<Rightarrow> False | Some w \<Rightarrow> w \<in> set (getHeads db b))),
       sc_isPreInsertion = (\<lambda>v. v_type v = PRE_INSERTION),
       sc_isHead = (\<lambda>v. v \<in> set (getHeads db b)),
       sc_successor = successorOf db \<rparr>"




text \<open>The user-visible version count as the spec words it: the versions on the claimed
  lines, minus the imported lines, plus one if there is an imported line.\<close>

definition userVersionCountSpec :: "DB \<Rightarrow> Block \<Rightarrow> int" where
  "userVersionCountSpec db b =
     (let claimedVersions = filter (\<lambda>v. lineInBlock db b (v_lineId v)) (versions db);
          importedLines =
            filter (\<lambda>l. b_id b \<in> set (l_blocks l) \<and>
                        (\<exists>v \<in> set (versions db). v_lineId v = l_id l \<and> v_type v = IMPORTED))
                   (lines db)
      in int (length claimedVersions) - int (length importedLines) +
         (if importedLines = [] then 0 else 1))"

definition memUserVersionCountSpec :: "MBlock \<Rightarrow> int" where
  "memUserVersionCountSpec blk =
     int (length (getVersions blk)) - int (mGetOriginalLineCount blk) +
     (if mGetOriginalLineCount blk = 0 then 0 else 1)"

text \<open>The timeline as the spec words it: the last IMPORTED version on the claimed lines
  as the single anchor, then the versions that are neither IMPORTED nor CLONE, by
  timestamp. A block has a single anchor when no other IMPORTED version on its lines
  carries the timestamp of the last one and every claimed version that is neither
  IMPORTED nor CLONE is stamped after it.\<close>

definition lastImported :: "Version list \<Rightarrow> Version option" where
  "lastImported imported =
     findFirst (filter (\<lambda>v. v_timestamp v = maxOf (map v_timestamp imported)) imported)"

definition timelineSpec :: "DB \<Rightarrow> Block \<Rightarrow> Version list" where
  "timelineSpec db b =
     (let claimed = filter (\<lambda>v. lineInFileBlock db b (v_lineId v)) (versions db)
      in (case lastImported (filter (\<lambda>v. v_type v = IMPORTED) claimed) of
            None \<Rightarrow> []
          | Some anchor \<Rightarrow> [anchor])
         @ sort_key v_timestamp (filter (\<lambda>v. v_type v \<notin> {IMPORTED, CLONE}) claimed))"




section \<open>Example stores and blocks\<close>

definition mkVersion :: "nat \<Rightarrow> nat \<Rightarrow> int \<Rightarrow> VersionType \<Rightarrow> bool \<Rightarrow> string \<Rightarrow> Version" where
  "mkVersion i l t k a c =
     \<lparr> v_id = i, v_lineId = l, v_timestamp = t, v_type = k, v_isActive = a, v_content = c,
       v_originId = None, v_sourceBlockId = None \<rparr>"

definition exBlock :: "int \<Rightarrow> Block" where
  "exBlock t =
     \<lparr> b_id = 1, b_blockId = ''f:root'', b_fileId = 1, b_type = ROOT, b_timestamp = Some t,
       b_parentId = None, b_originId = None \<rparr>"

definition exLine1 :: Line where
  "exLine1 = \<lparr> l_id = 1, l_fileId = 1, l_order = 1, l_blocks = [1] \<rparr>"

definition exLine2 :: Line where
  "exLine2 = \<lparr> l_id = 2, l_fileId = 1, l_order = 2, l_blocks = [1] \<rparr>"

text \<open>A file of one imported line \<open>x\<close> (timestamp 1) after a line \<open>new\<close> was inserted
  below it (PRE_INSERTION at 2, INSERTION at 3); the root block is at timestamp \<open>t\<close>.\<close>

definition exInserted :: "int \<Rightarrow> DB" where
  "exInserted t =
     \<lparr> files = [\<lparr> f_id = 1, f_eol = [CHR 0x0A] \<rparr>],
       lines = [exLine1, exLine2],
       versions = [mkVersion 1 1 1 IMPORTED True ''x'',
                   mkVersion 2 2 2 PRE_INSERTION False [],
                   mkVersion 3 2 3 INSERTION True ''new''],
       blockRows = [exBlock t],
       tags = [],
       nextLineId = 3, nextVersionId = 4, nextBlockId = 2, clock = 3 \<rparr>"

definition mkNV :: "nat \<Rightarrow> int \<Rightarrow> bool \<Rightarrow> string \<Rightarrow> bool \<Rightarrow> LineNodeVersion" where
  "mkNV i t a c p =
     \<lparr> nv_id = i, nv_timestamp = t, nv_isActive = a, nv_content = c, nv_isPreInsertion = p \<rparr>"

text \<open>The same file in memory: line 2 was inserted by the block, and \<open>h\<close> is its head.
  The block merges versions, and line 2 is its last modified line.\<close>

definition exMemInserted :: "LineNodeVersion \<Rightarrow> MBlock" where
  "exMemInserted h =
     \<lparr> mb_id = ''f:root'', mb_eol = [CHR 0x0A],
       mb_lines = [\<lparr> ml_node = 1, ml_history = [mkNV 1 1 True ''x'' False],
                      ml_currentVersion = mkNV 1 1 True ''x'' False, ml_isInserted = False \<rparr>,
                   \<lparr> ml_node = 2,
                      ml_history = [mkNV 2 2 False [] True, mkNV 3 3 True ''new'' False],
                      ml_currentVersion = h, ml_isInserted = True \<rparr>],
       mb_tags = [], mb_enableVersionMerging = True, mb_lastModifiedLine = Some 2 \<rparr>"

text \<open>A file of one imported line \<open>x\<close> (timestamp 1) changed to \<open>Y\<close> (timestamp 2); the
  root block is at timestamp \<open>t\<close>.\<close>

definition exChanged :: "int \<Rightarrow> DB" where
  "exChanged t =
     \<lparr> files = [\<lparr> f_id = 1, f_eol = [CHR 0x0A] \<rparr>],
       lines = [exLine1],
       versions = [mkVersion 1 1 1 IMPORTED True ''x'', mkVersion 2 1 2 CHANGE True ''Y''],
       blockRows = [exBlock t],
       tags = [],
       nextLineId = 2, nextVersionId = 3, nextBlockId = 2, clock = 2 \<rparr>"

text \<open>A file of two lines imported at the shared timestamp 1.\<close>

definition exTwoImported :: DB where
  "exTwoImported =
     \<lparr> files = [\<lparr> f_id = 1, f_eol = [CHR 0x0A] \<rparr>],
       lines = [exLine1, exLine2],
       versions = [mkVersion 1 1 1 IMPORTED True ''x'', mkVersion 2 2 1 IMPORTED True ''y''],
       blockRows = [exBlock 1],
       tags = [],
       nextLineId = 3, nextVersionId = 3, nextBlockId = 2, clock = 1 \<rparr>"


text \<open>The store \<open>exInserted 3\<close> after the root block has created a child on its line 2.\<close>

definition exChild :: Block where
  "exChild =
     \<lparr> b_id = 2, b_blockId = ''f:root:inline0'', b_fileId = 1, b_type = INLINE, b_timestamp = Some 3,
       b_parentId = Some 1, b_originId = None \<rparr>"

definition exWithChild :: DB where
  "exWithChild =
     \<lparr> files = [\<lparr> f_id = 1, f_eol = [CHR 0x0A] \<rparr>],
       lines = [exLine1, \<lparr> l_id = 2, l_fileId = 1, l_order = 2, l_blocks = [1, 2] \<rparr>],
       versions = [mkVersion 1 1 1 IMPORTED True ''x'',
                   mkVersion 2 2 2 PRE_INSERTION False [],
                   mkVersion 3 2 3 INSERTION True ''new''],
       blockRows = [exBlock 3, exChild],
       tags = [],
       nextLineId = 3, nextVersionId = 4, nextBlockId = 3, clock = 3 \<rparr>"

text \<open>The store \<open>exInserted 3\<close> after the root block has created a child on the range from
  line 2 to line 1, which resolves to no line.\<close>

definition exEmptyChildStore :: DB where
  "exEmptyChildStore =
     \<lparr> files = [\<lparr> f_id = 1, f_eol = [CHR 0x0A] \<rparr>],
       lines = [exLine1, exLine2],
       versions = [mkVersion 1 1 1 IMPORTED True ''x'',
                   mkVersion 2 2 2 PRE_INSERTION False [],
                   mkVersion 3 2 3 INSERTION True ''new''],
       blockRows = [exBlock 3, exChild],
       tags = [],
       nextLineId = 3, nextVersionId = 4, nextBlockId = 3, clock = 3 \<rparr>"

text \<open>A file of the one imported line \<open>x\<close>, and the change an editor reports when the
  user types a line break and \<open>b\<close> at the end of that line: an empty range at column 2
  of line 1, the inserted text, and the text of the lines after the edit.\<close>

definition exOneLine :: DB where
  "exOneLine =
     \<lparr> files = [\<lparr> f_id = 1, f_eol = [CHR 0x0A] \<rparr>],
       lines = [exLine1],
       versions = [mkVersion 1 1 1 IMPORTED True ''x''],
       blockRows = [exBlock 1],
       tags = [],
       nextLineId = 2, nextVersionId = 2, nextBlockId = 2, clock = 1 \<rparr>"

definition exAppendChange :: MultiLineChange where
  "exAppendChange =
     \<lparr> modifiedRange = \<lparr> startLineNumber = 1, startColumn = 2, endLineNumber = 1, endColumn = 2 \<rparr>,
       insertedText = [CHR 0x0A, CHR ''b''],
       lineText = [CHR ''x'', CHR 0x0A, CHR ''b''] \<rparr>"

text \<open>The store after that change: line 2 with its two versions, claimed by the root
  block, whose timestamp is that of the INSERTION.\<close>

definition exAfterAppend :: DB where
  "exAfterAppend =
     \<lparr> files = [\<lparr> f_id = 1, f_eol = [CHR 0x0A] \<rparr>],
       lines = [exLine1, exLine2],
       versions = [mkVersion 1 1 1 IMPORTED True ''x'',
                   \<lparr> v_id = 2, v_lineId = 2, v_timestamp = 2, v_type = PRE_INSERTION,
                     v_isActive = False, v_content = [], v_originId = None,
                     v_sourceBlockId = Some 1 \<rparr>,
                   \<lparr> v_id = 3, v_lineId = 2, v_timestamp = 3, v_type = INSERTION,
                     v_isActive = True, v_content = ''b'', v_originId = None,
                     v_sourceBlockId = Some 1 \<rparr>],
       blockRows = [exBlock 3],
       tags = [],
       nextLineId = 3, nextVersionId = 4, nextBlockId = 2, clock = 3 \<rparr>"

text \<open>A block in memory with the one line \<open>x\<close> (timestamp 1) changed to \<open>Y\<close>
  (timestamp 2): \<open>h\<close> is the head of the line, \<open>tgs\<close> are the tags of the block.\<close>

definition exMemChanged :: "LineNodeVersion \<Rightarrow> (string \<times> MTag) list \<Rightarrow> MBlock" where
  "exMemChanged h tgs =
     \<lparr> mb_id = ''f:root'', mb_eol = [CHR 0x0A],
       mb_lines = [\<lparr> ml_node = 1,
                      ml_history = [mkNV 1 1 True ''x'' False, mkNV 2 2 True ''Y'' False],
                      ml_currentVersion = h, ml_isInserted = False \<rparr>],
       mb_tags = tgs, mb_enableVersionMerging = False, mb_lastModifiedLine = None \<rparr>"

text \<open>Line operations for the example blocks: the line number and the position of a
  line are the number of its node, a created line gets the next node number and is
  linked in before \<open>nxt\<close> (at the end without one), and no child is updated.\<close>

definition exLineOps :: LineOps where
  "exLineOps =
     \<lparr> getLineNumber = (\<lambda>l. int (ml_node l)),
       getPosition = (\<lambda>l. int (ml_node l)),
       lineCreate = (\<lambda>blk content previous nxt.
          (let line = \<lparr> ml_node = Suc (length (mb_lines blk)),
                         ml_history = [mkNV 0 0 False [] True, mkNV 0 0 True content False],
                         ml_currentVersion = mkNV 0 0 True content False,
                         ml_isInserted = True \<rparr>
           in (line, blk\<lparr>mb_lines := (case nxt of
                                          None \<Rightarrow> mb_lines blk @ [line]
                                        | Some n \<Rightarrow> takeWhile (\<lambda>l. l \<noteq> n) (mb_lines blk) @ [line] @
                                                    dropWhile (\<lambda>l. l \<noteq> n) (mb_lines blk))\<rparr>))),
       expandChild = (\<lambda>child line blk. blk) \<rparr>"

section \<open>Heads\<close>

text \<open>
  C2. The head of a line at the block's timestamp is the last version of the line at or
  before it; for a line with no such version, the spec asks for the earliest version
  of that same line. \<^verbatim>\<open>getHeadFor\<close> takes the fallback over every line of the block: in
  the store \<open>exInserted 1\<close> the inserted line 2 is not yet born at timestamp 1, and the
  head \<^verbatim>\<open>getHeadFor\<close> returns for it is the imported version of line 1, an active
  version of another line. \<^verbatim>\<open>getHeads\<close>, on the same store, gives line 2 its own hidden
  PRE_INSERTION version.
\<close>

theorem getHeadFor_unborn_line_other_line:
  "getHeadFor (exInserted 1) (exBlock 1) exLine2 = Inr (mkVersion 1 1 1 IMPORTED True ''x'')
   \<and> v_lineId (mkVersion 1 1 1 IMPORTED True ''x'') \<noteq> l_id exLine2
   \<and> filter (\<lambda>v. v_lineId v = l_id exLine2) (getHeads (exInserted 1) (exBlock 1))
       = [mkVersion 2 2 2 PRE_INSERTION False []]"
  by code_simp

section \<open>Applying a timeline index\<close>

lemma mGetTimeline_reset [simp]:
  "mGetTimeline (resetVersionMerging blk) = mGetTimeline blk"
  by (simp add: mGetTimeline_def resetVersionMerging_def mGetOriginalLineCount_def
      getVersions_def followsPreInsertion_def previousOf_def historyOf_def)

lemma previousOf_reset [simp]: "previousOf (resetVersionMerging blk) v = previousOf blk v"
  by (simp add: previousOf_def historyOf_def resetVersionMerging_def)

lemma mGetCurrentVersion_reset [simp]:
  "mGetCurrentVersion (resetVersionMerging blk) = mGetCurrentVersion blk"
  by (simp add: mGetCurrentVersion_def mGetHeads_def resetVersionMerging_def)

lemma getCurrentVersionIndex_reset [simp]:
  "getCurrentVersionIndex (resetVersionMerging blk) = getCurrentVersionIndex blk"
  by (simp add: getCurrentVersionIndex_def Let_def cong: option.case_cong)

text \<open>
  C7 (amended). An index below 0 or at or beyond the length of the timeline makes
  \<open>apply_index\<close> fail with the out-of-bounds error. The persistent BlockProxy leaves
  the store as it was. The in-memory Block has by then reset its version merging:
  the block it leaves behind is the block before the call with \<open>lastModifiedLine\<close>
  cleared, and nothing else changed.
\<close>

theorem applyIndex_out_of_range:
  "(i < 0 \<or> int (length (getTimeline db b)) \<le> i \<longrightarrow>
      applyIndex db b i = (Inl IndexOutOfBounds, db)) \<and>
   (i < 0 \<or> int (length (mGetTimeline blk)) \<le> i \<longrightarrow>
      mApplyIndex ops blk i = (Inl IndexOutOfBounds, blk\<lparr>mb_lastModifiedLine := None\<rparr>))"
  by (auto simp: applyIndex_def mApplyIndex_def Let_def resetVersionMerging_def[symmetric])

theorem applyIndex_out_of_range_witness:
  "applyIndex (exInserted 3) (exBlock 3) 7 = (Inl IndexOutOfBounds, exInserted 3) \<and>
   mApplyIndex specOps (exMemInserted (mkNV 3 3 True ''new'' False)) (- 1) =
     (Inl IndexOutOfBounds,
      (exMemInserted (mkNV 3 3 True ''new'' False))\<lparr>mb_lastModifiedLine := None\<rparr>)"
proof -
  have h: "int (length (getTimeline (exInserted 3) (exBlock 3))) \<le> 7"
    by code_simp
  show ?thesis
    using h applyIndex_out_of_range [of 7 "exInserted 3" "exBlock 3"]
      applyIndex_out_of_range [of "- 1" _ _ "exMemInserted (mkNV 3 3 True ''new'' False)" specOps]
    by simp
qed

text \<open>
  The claim as stated fails on the in-memory Block: a block that merges versions and
  has a last modified line is not the same block after an out-of-range
  \<open>apply_index\<close>.
\<close>

theorem applyIndex_out_of_range_counterexample:
  "mApplyIndex specOps (exMemInserted (mkNV 3 3 True ''new'' False)) 7 =
     (Inl IndexOutOfBounds,
      (exMemInserted (mkNV 3 3 True ''new'' False))\<lparr>mb_lastModifiedLine := None\<rparr>) \<and>
   snd (mApplyIndex specOps (exMemInserted (mkNV 3 3 True ''new'' False)) 7) \<noteq>
     exMemInserted (mkNV 3 3 True ''new'' False)"
  by code_simp

lemma nextOf_reset [simp]: "nextOf (resetVersionMerging blk) = nextOf blk"
  by (simp add: fun_eq_iff nextOf_def historyOf_def resetVersionMerging_def)

lemma chooseVersion_snapRule:
  assumes "i < length timeline"
  shows "chooseVersion ops blk (timeline ! i)
           (if int i - 1 \<ge> 0 then arrayAt timeline (int i - 1) else None)
           (if int i + 1 < int (length timeline) then arrayAt timeline (int i + 1) else None)
           latest
         = snapRule (memContext ops blk) timeline i latest"
proof -
  have p: "(if int i - 1 \<ge> 0 then arrayAt timeline (int i - 1) else None)
           = (if 0 < i then Some (timeline ! (i - 1)) else None)"
    using assms by (auto simp: arrayAt_def nat_diff_distrib')
  have n: "(if int i + 1 < int (length timeline) then arrayAt timeline (int i + 1) else None)
           = (if Suc i < length timeline then Some (timeline ! Suc i) else None)"
    by (auto simp: arrayAt_def nat_add_distrib)
  show ?thesis
    unfolding p n
    by (auto simp: chooseVersion_def snapRule_def memContext_def Let_def split: option.splits)
qed

lemma mApplyIndex_nat:
  assumes n: "n < length (mGetTimeline blk)" and c: "getCurrentVersionIndex blk = Inr c"
  shows "mApplyIndex ops blk (int n) =
        (case snapRule (memContext ops (resetVersionMerging blk)) (mGetTimeline blk) n
                (mGetTimeline blk ! c) of
           None \<Rightarrow> (Inl TypeError, resetVersionMerging blk)
         | Some v \<Rightarrow> (Inr (), mApplyTimestamp ops (resetVersionMerging blk) (nv_timestamp v)))"
proof -
  have b: "\<not> (int n < 0 \<or> int (length (mGetTimeline (resetVersionMerging blk))) \<le> int n)"
    using n by simp
  have "mApplyIndex ops blk (int n) =
      (case chooseVersion ops (resetVersionMerging blk) (mGetTimeline blk ! n)
           (if int n - 1 \<ge> 0 then arrayAt (mGetTimeline blk) (int n - 1) else None)
           (if int n + 1 < int (length (mGetTimeline blk))
            then arrayAt (mGetTimeline blk) (int n + 1) else None)
           (mGetTimeline blk ! c) of
         None \<Rightarrow> (Inl TypeError, resetVersionMerging blk)
       | Some v \<Rightarrow> (Inr (), mApplyTimestamp ops (resetVersionMerging blk) (nv_timestamp v)))"
    unfolding mApplyIndex_def Let_def if_not_P [OF b]
    by (simp only: mGetTimeline_reset getCurrentVersionIndex_reset c sum.case nat_int)
  then show ?thesis
    by (simp only: chooseVersion_snapRule [OF n])
qed

text \<open>
  C1 (amended). For an index within the timeline, the in-memory Block chooses the
  version by the four snap rules of the spec, wherever its current version index can
  be computed, and applies the timestamp of the chosen version (a rule that asks for
  the successor of a version that has none ends in a TypeError). The persistent
  BlockProxy has no snap rules: it applies the timestamp of the selected entry itself
  for every index within its timeline.
\<close>

theorem applyIndex_in_range:
  "(0 \<le> i \<and> i < int (length (getTimeline db b)) \<longrightarrow>
      applyIndex db b i =
        (Inr (), applyTimestamp db b (v_timestamp (getTimeline db b ! nat i)))) \<and>
   (0 \<le> i \<and> i < int (length (mGetTimeline blk)) \<and> getCurrentVersionIndex blk = Inr c \<longrightarrow>
      mApplyIndex ops blk i =
        (case snapRule (memContext ops (resetVersionMerging blk)) (mGetTimeline blk) (nat i)
                (mGetTimeline blk ! c) of
           None \<Rightarrow> (Inl TypeError, resetVersionMerging blk)
         | Some v \<Rightarrow> (Inr (), mApplyTimestamp ops (resetVersionMerging blk) (nv_timestamp v))))"
proof (intro conjI impI)
  assume "0 \<le> i \<and> i < int (length (getTimeline db b))"
  then show "applyIndex db b i =
      (Inr (), applyTimestamp db b (v_timestamp (getTimeline db b ! nat i)))"
    by (simp add: applyIndex_def Let_def)
next
  assume a: "0 \<le> i \<and> i < int (length (mGetTimeline blk)) \<and> getCurrentVersionIndex blk = Inr c"
  then obtain n where n: "i = int n"
    using nonneg_int_cases by blast
  with a have l: "n < length (mGetTimeline blk)"
    by simp
  from a have c: "getCurrentVersionIndex blk = Inr c"
    by simp
  show "mApplyIndex ops blk i =
      (case snapRule (memContext ops (resetVersionMerging blk)) (mGetTimeline blk) (nat i)
              (mGetTimeline blk ! c) of
         None \<Rightarrow> (Inl TypeError, resetVersionMerging blk)
       | Some v \<Rightarrow> (Inr (), mApplyTimestamp ops (resetVersionMerging blk) (nv_timestamp v)))"
    unfolding n nat_int by (rule mApplyIndex_nat [OF l c])
qed

theorem applyIndex_in_range_witness:
  "applyIndex (exInserted 3) (exBlock 3) 0 = (Inr (), exInserted 1) \<and>
   mApplyIndex specOps (exMemInserted (mkNV 2 2 False [] True)) 1 =
     (Inr (), (exMemInserted (mkNV 3 3 True ''new'' False))\<lparr>mb_lastModifiedLine := None\<rparr>)"
proof -
  have h1: "0 \<le> (0::int) \<and> 0 < int (length (getTimeline (exInserted 3) (exBlock 3)))"
    by code_simp
  have e1: "applyTimestamp (exInserted 3) (exBlock 3)
              (v_timestamp (getTimeline (exInserted 3) (exBlock 3) ! nat 0)) = exInserted 1"
    by code_simp
  have h2: "0 \<le> (1::int) \<and> 1 < int (length (mGetTimeline (exMemInserted (mkNV 2 2 False [] True))))
            \<and> getCurrentVersionIndex (exMemInserted (mkNV 2 2 False [] True)) = Inr 0"
    by code_simp
  have e2: "(case snapRule (memContext specOps (resetVersionMerging (exMemInserted (mkNV 2 2 False [] True))))
                   (mGetTimeline (exMemInserted (mkNV 2 2 False [] True))) (nat 1)
                   (mGetTimeline (exMemInserted (mkNV 2 2 False [] True)) ! 0) of
              None \<Rightarrow> (Inl TypeError, resetVersionMerging (exMemInserted (mkNV 2 2 False [] True)))
            | Some v \<Rightarrow> (Inr (), mApplyTimestamp specOps
                          (resetVersionMerging (exMemInserted (mkNV 2 2 False [] True))) (nv_timestamp v)))
            = (Inr (), (exMemInserted (mkNV 3 3 True ''new'' False))\<lparr>mb_lastModifiedLine := None\<rparr>)"
    by code_simp
  show ?thesis
    using h1 h2 e1 e2
      applyIndex_in_range [of 0 "exInserted 3" "exBlock 3"]
      applyIndex_in_range [of 1 _ _ "exMemInserted (mkNV 2 2 False [] True)" 0 specOps]
    by simp
qed

text \<open>
  The claim as stated fails on the BlockProxy. In the store \<open>exInserted 1\<close> the block is
  at timestamp 1, its current version is the imported version (timeline entry 0), and
  the selected entry 1 is the PRE_INSERTION of line 2, which is that line's head: no
  neighbour is a PRE_INSERTION, so rules 1 and 2 do not apply, and rule 3 asks for the
  successor, the INSERTION at timestamp 3. \<^verbatim>\<open>applyIndex\<close> sets the block's timestamp to 2.
\<close>

theorem applyIndex_snap_rules_counterexample:
  "getCurrentVersion (exInserted 1) (exBlock 1) = Inr (mkVersion 1 1 1 IMPORTED True ''x'') \<and>
   getTimeline (exInserted 1) (exBlock 1) ! 0 = mkVersion 1 1 1 IMPORTED True ''x'' \<and>
   snapRule (dbContext (exInserted 1) (exBlock 1)) (getTimeline (exInserted 1) (exBlock 1)) 1
            (mkVersion 1 1 1 IMPORTED True ''x'')
     = Some (mkVersion 3 2 3 INSERTION True ''new'') \<and>
   applyIndex (exInserted 1) (exBlock 1) 1 = (Inr (), exInserted 2) \<and>
   map b_timestamp (blockRows (exInserted 2)) = [Some 2]"
  by code_simp

section \<open>The user-visible version count\<close>

lemma findFirst_None_iff [simp]: "findFirst xs = None \<longleftrightarrow> xs = []"
  by (cases xs) (simp_all add: findFirst_def)

lemma sort_key_Nil_iff [simp]: "sort_key f xs = [] \<longleftrightarrow> xs = []"
  by (metis length_sort length_0_conv)

lemma getLastImportedVersion_None_iff:
  "getLastImportedVersion db b = None \<longleftrightarrow>
     filter (\<lambda>v. lineInFileBlock db b (v_lineId v) \<and> v_type v = IMPORTED) (versions db) = []"
  by (simp add: getLastImportedVersion_def)

text \<open>
  C4 (amended). The version count that \<^verbatim>\<open>asBlockInfo\<close> of the BlockProxy reports is the
  number of Versions on the claimed lines that are not CLONE versions, minus the number
  of IMPORTED Versions on the claimed lines, plus 1 if a claimed line of the block's
  file has an IMPORTED Version. The count of the in-memory Block is the number of all
  versions of its lines, minus the number of its lines, plus 1.
\<close>

theorem userVersionCount_formula:
  "(asBlockInfo db fileId b = Inr info \<longrightarrow>
      bi_versionCount info =
        int (length (filter (\<lambda>v. lineInBlock db b (v_lineId v) \<and> v_type v \<noteq> CLONE) (versions db)))
        - int (length (filter (\<lambda>v. lineInBlock db b (v_lineId v) \<and> v_type v = IMPORTED) (versions db)))
        + (if filter (\<lambda>v. lineInFileBlock db b (v_lineId v) \<and> v_type v = IMPORTED) (versions db) = []
           then 0 else 1)) \<and>
   getUserVersionCount blk =
     int (length (concat (map ml_history (mb_lines blk)))) - int (length (mb_lines blk)) + 1"
proof (intro conjI impI)
  assume a: "asBlockInfo db fileId b = Inr info"
  have li: "(case getLastImportedVersion db b of Some li \<Rightarrow> 1 | None \<Rightarrow> (0::int)) =
      (if filter (\<lambda>v. lineInFileBlock db b (v_lineId v) \<and> v_type v = IMPORTED) (versions db) = []
       then 0 else 1)"
    using getLastImportedVersion_None_iff [of db b] by (auto split: option.splits)
  from a show "bi_versionCount info =
        int (length (filter (\<lambda>v. lineInBlock db b (v_lineId v) \<and> v_type v \<noteq> CLONE) (versions db)))
        - int (length (filter (\<lambda>v. lineInBlock db b (v_lineId v) \<and> v_type v = IMPORTED) (versions db)))
        + (if filter (\<lambda>v. lineInFileBlock db b (v_lineId v) \<and> v_type v = IMPORTED) (versions db) = []
           then 0 else 1)"
    unfolding li [symmetric]
    by (auto simp: asBlockInfo_def Let_def getVersionCount_def getOriginalLineCount_def
        split: sum.splits if_splits option.splits)
next
  show "getUserVersionCount blk =
     int (length (concat (map ml_history (mb_lines blk)))) - int (length (mb_lines blk)) + 1"
    by (simp add: getUserVersionCount_def mGetVersionCount_def mGetLineCount_def getVersions_def)
qed

theorem userVersionCount_formula_witness:
  "asBlockInfo (exChanged 2) ''f'' (exBlock 2) =
     Inr \<lparr> bi_blockId = (''f'', ''f:root''), bi_type = ROOT,
           bi_range = \<lparr> startLine = 1, endLine = 1 \<rparr>, bi_versionCount = 2,
           bi_versionIndex = 0, bi_tags = [] \<rparr> \<and>
   (2::int) = int (length (filter (\<lambda>v. lineInBlock (exChanged 2) (exBlock 2) (v_lineId v) \<and>
                                       v_type v \<noteq> CLONE) (versions (exChanged 2))))
        - int (length (filter (\<lambda>v. lineInBlock (exChanged 2) (exBlock 2) (v_lineId v) \<and>
                                     v_type v = IMPORTED) (versions (exChanged 2))))
        + (if filter (\<lambda>v. lineInFileBlock (exChanged 2) (exBlock 2) (v_lineId v) \<and>
                           v_type v = IMPORTED) (versions (exChanged 2)) = []
           then 0 else 1)"
proof -
  have h: "asBlockInfo (exChanged 2) ''f'' (exBlock 2) =
     Inr \<lparr> bi_blockId = (''f'', ''f:root''), bi_type = ROOT,
           bi_range = \<lparr> startLine = 1, endLine = 1 \<rparr>, bi_versionCount = 2,
           bi_versionIndex = 0, bi_tags = [] \<rparr>"
    by code_simp
  show ?thesis
    using h userVersionCount_formula [of "exChanged 2" "''f''" "exBlock 2"
        "\<lparr> bi_blockId = (''f'', ''f:root''), bi_type = ROOT,
           bi_range = \<lparr> startLine = 1, endLine = 1 \<rparr>, bi_versionCount = 2,
           bi_versionIndex = 0, bi_tags = [] \<rparr>"]
    by simp
qed

text \<open>
  The claim as stated fails on both implementations. After the block at timestamp 1
  of \<open>exChanged\<close> has cloned its outdated head, its line carries three Versions, one of
  them a CLONE: the spec's formula gives 3 - 1 + 1 = 3, and \<^verbatim>\<open>asBlockInfo\<close> reports 2. The
  in-memory block of the inserted line has three versions on two lines, one of them
  imported: the spec's formula gives 3 - 1 + 1 = 3, and \<^verbatim>\<open>getUserVersionCount\<close> is 2.
\<close>

theorem userVersionCount_counterexample:
  "map_sum id bi_versionCount
     (asBlockInfo (cloneOutdatedHeads (exChanged 1) (exBlock 1)) ''f'' (exBlock 3)) = Inr 2 \<and>
   userVersionCountSpec (cloneOutdatedHeads (exChanged 1) (exBlock 1)) (exBlock 3) = 3 \<and>
   getUserVersionCount (exMemInserted (mkNV 3 3 True ''new'' False)) = 2 \<and>
   memUserVersionCountSpec (exMemInserted (mkNV 3 3 True ''new'' False)) = 3"
  by code_simp

section \<open>The timeline\<close>




lemma findFirst_sort_desc:
  assumes "findFirst (sort_key (\<lambda>v. - f v) xs) = Some (m::'a)"
  shows "m \<in> set xs \<and> (\<forall>x\<in>set xs. (f x :: int) \<le> f m)"
proof -
  from assms obtain rest where r: "sort_key (\<lambda>v. - f v) xs = m # rest"
    by (auto simp: findFirst_def split: list.splits)
  have "sorted (map (\<lambda>v. - f v) (m # rest))"
    using sorted_sort_key [of "\<lambda>v. - f v" xs] by (simp only: r)
  then have "\<forall>x\<in>set (m # rest). f x \<le> f m"
    by auto
  moreover have "set (m # rest) = set xs"
    using set_sort [of "\<lambda>v. - f v" xs] by (simp only: r)
  ultimately show ?thesis
    by auto
qed







text \<open>IMPORTED versions that share the timestamp of the last one all pass the filter
  \<^verbatim>\<open>timestamp: { gte: lastImportedLine.timestamp }\<close> of the BlockProxy.\<close>

lemma getTimeline_shared_import:
  "getTimeline exTwoImported (exBlock 1) =
     [mkVersion 1 1 1 IMPORTED True ''x'', mkVersion 2 2 1 IMPORTED True ''y''] \<and>
   timelineSpec exTwoImported (exBlock 1) = [mkVersion 1 1 1 IMPORTED True ''x'']"
  by code_simp

section \<open>Creating a child block\<close>

lemma lineOf_Some: "lineOf db lid = Some l \<Longrightarrow> l \<in> set (lines db) \<and> l_id l = lid"
  by (auto simp: lineOf_def find_Some_iff)

lemma lineInFileBlock_line:
  "lineInFileBlock db b lid \<Longrightarrow> \<exists>l\<in>set (lines db). l_id l = lid"
  by (auto simp: lineInFileBlock_def split: option.splits dest: lineOf_Some)

lemma groupByMax_fst: "(lid, t) \<in> set (groupByMax vs) \<Longrightarrow> lid \<in> v_lineId ` set vs"
  by (auto simp: groupByMax_def)





lemma findFirst_Nil [simp]: "findFirst [] = None"
  by (simp add: findFirst_def)

lemma findFirst_filter_None:
  "findFirst (filter P xs) = None \<longleftrightarrow> \<not> (\<exists>x\<in>set xs. P x)"
  by (simp add: filter_empty_conv)









section \<open>Inserting a line\<close>

subsection \<open>The persistent BlockProxy\<close>

lemma groupByMax_functional:
  "(lid, t1) \<in> set (groupByMax vs) \<Longrightarrow> (lid, t2) \<in> set (groupByMax vs) \<Longrightarrow> t1 = t2"
  by (auto simp: groupByMax_def)

lemma activeLineCount_le:
  assumes d: "distinct (map (\<lambda>v. (v_lineId v, v_timestamp v)) (versions db))"
  shows "getActiveLineCount db b \<le> length (getActiveLines db b)"
proof -
  define pah where "pah = potentiallyActiveHeads db b"
  define vs where "vs = filter (\<lambda>v. matchesHead pah v \<and> v_isActive v) (versions db)"
  define ls where "ls = filter (\<lambda>l. \<exists>(lid, ts) \<in> set pah. l_id l = lid \<and>
      (\<exists>v \<in> set (versions db). v_lineId v = l_id l \<and> v_timestamp v = ts \<and> v_isActive v)) (lines db)"
  have inj: "inj_on (\<lambda>v. (v_lineId v, v_timestamp v)) (set (versions db))" and dv: "distinct (versions db)"
    using d by (auto simp: distinct_map)
  have "inj_on v_lineId (set vs)"
  proof (rule inj_onI)
    fix v w assume v: "v \<in> set vs" and w: "w \<in> set vs" and e: "v_lineId v = v_lineId w"
    then have "(v_lineId v, v_timestamp v) \<in> set pah" "(v_lineId v, v_timestamp w) \<in> set pah"
      by (auto simp: vs_def matchesHead_def)
    then have "v_timestamp v = v_timestamp w"
      unfolding pah_def potentiallyActiveHeads_def by (rule groupByMax_functional)
    with e v w show "v = w"
      using inj by (auto simp: vs_def dest: inj_onD)
  qed
  moreover have "distinct vs"
    using dv by (simp add: vs_def)
  ultimately have c: "length vs = card (v_lineId ` set vs)"
    by (simp add: card_image distinct_card)
  have sub: "v_lineId ` set vs \<subseteq> l_id ` set ls"
  proof
    fix i assume "i \<in> v_lineId ` set vs"
    then obtain v where v: "v \<in> set (versions db)" "matchesHead pah v" "v_isActive v" "i = v_lineId v"
      by (auto simp: vs_def)
    then have "(i, v_timestamp v) \<in> set pah"
      by (simp add: matchesHead_def)
    then have "lineInFileBlock db b i"
      unfolding pah_def potentiallyActiveHeads_def by (auto dest!: groupByMax_fst)
    then obtain l where l: "l \<in> set (lines db)" "l_id l = i"
      using lineInFileBlock_line by blast
    have "l \<in> set ls"
      unfolding ls_def using l v \<open>(i, v_timestamp v) \<in> set pah\<close> by auto
    with l show "i \<in> l_id ` set ls"
      by auto
  qed
  have "length vs \<le> card (l_id ` set ls)"
    unfolding c by (rule card_mono [OF _ sub]) simp
  also have "\<dots> \<le> card (set ls)"
    by (rule card_image_le) simp
  also have "\<dots> \<le> length ls"
    by (rule card_length)
  finally show ?thesis
    by (simp add: getActiveLineCount_def getActiveLines_def vs_def ls_def pah_def)
qed

lemma addBlocks_ids [simp]: "map l_id (lines (addBlocks d lid bids)) = map l_id (lines d)"
  by (simp add: addBlocks_def comp_def if_distrib [of l_id] cong: if_cong)

lemma fold_addBlocks_ids [simp]:
  "map l_id (lines (fold (\<lambda>(lid, v0, v1) d. addBlocks d lid bids) created d)) = map l_id (lines d)"
  by (induction created arbitrary: d) (auto simp: split_def)

lemma file_insertLines_single:
  "\<exists>db1 v0 v1. file_insertLines db b [c] p n = (db1, [(nextLineId db, v0, v1)]) \<and>
      map l_id (lines db1) = map l_id (lines db) @ [nextLineId db]"
  by (simp add: Let_def setTimestamp_def)

lemma insertLines_ids:
  assumes "file_insertLines db b cs p n = (db1, created1)"
  shows "\<exists>db'. insertLines db b cs p n r = (db', created1) \<and>
           map l_id (lines db') = map l_id (lines db1)"
  using assms
  by (auto simp: insertLines_def split: option.splits BlockReference.splits)

lemma insertLines_single:
  assumes "insertLines db b [c] p n r = (db', created)"
  shows "map fst created = [nextLineId db] \<and> nextLineId db \<in> set (map l_id (lines db'))"
proof -
  obtain db1 v0 v1 where f: "file_insertLines db b [c] p n = (db1, [(nextLineId db, v0, v1)])"
    "map l_id (lines db1) = map l_id (lines db) @ [nextLineId db]"
    using file_insertLines_single by blast
  from insertLines_ids [OF f(1), of r] assms
  have "created = [(nextLineId db, v0, v1)]" "map l_id (lines db') = map l_id (lines db1)"
    by auto
  with f(2) show ?thesis
    by simp
qed

lemma findFirstOrThrow_nonempty: "xs \<noteq> [] \<Longrightarrow> \<exists>x. findFirstOrThrow xs = Inr x"
  by (cases xs) (simp_all add: findFirstOrThrow_def)

lemma insertLinesAt_clamp:
  "insertLinesAt db b n cs =
     insertLinesAt db b (min (max n 1) (int (getActiveLineCount db b) + 1)) cs"
  by (simp add: insertLinesAt_def Let_def)

lemma insertLinesAt_cases:
  assumes "k = min (max n 1) (int (getActiveLineCount db b) + 1)"
  shows "insertLinesAt db b n cs =
     (if k = 1 then
        (case prependLines db b cs of
           (Inl e, db') \<Rightarrow> (Inl e, db')
         | (Inr created, db') \<Rightarrow> (Inr (map fst created), db'))
      else if k = int (getActiveLineCount db b) + 1 then
        (case appendLines db b cs of
           (Inl e, db') \<Rightarrow> (Inl e, db')
         | (Inr created, db') \<Rightarrow> (Inr (map fst created), db'))
      else
        (case (arrayAt (getActiveLines db b) (k - 2), arrayAt (getActiveLines db b) (k - 1)) of
           (Some previousLine, Some currentLine) \<Rightarrow>
             (let (db', created) =
                    insertLines db b cs (Some previousLine) (Some currentLine) (Some Previous)
              in (Inr (map fst created), db'))
         | _ \<Rightarrow> (Inl TypeError, db)))"
  unfolding assms insertLinesAt_def Let_def ..

text \<open>
  The persistent BlockProxy, the sibling of the in-memory \<^verbatim>\<open>insertLine\<close>. In a store in
  which no line has two versions with the same timestamp, for every block that claims
  a line of its file and for every integer \<open>n\<close>, \<^verbatim>\<open>insertLineAt\<close> does not fail and
  creates a line that was not there before (the next line id being unused); a request
  with \<open>n \<le> 1\<close> is the request at 1, and a request with \<open>n\<close> at or beyond the active line
  count plus 1 is the request at the active line count plus 1.
\<close>

lemma insertLineAt_total:
  assumes hasLine: "\<exists>l\<in>set (lines db). l_fileId l = b_fileId b \<and> b_id b \<in> set (l_blocks l)"
    and d: "distinct (map (\<lambda>v. (v_lineId v, v_timestamp v)) (versions db))"
    and fresh: "nextLineId db \<notin> set (map l_id (lines db))"
  shows "(\<exists>lid db'. insertLineAt db b n c = (Inr (Some lid), db') \<and>
            lid \<notin> set (map l_id (lines db)) \<and> lid \<in> set (map l_id (lines db'))) \<and>
         (n \<le> 1 \<longrightarrow> insertLineAt db b n c = insertLineAt db b 1 c) \<and>
         (int (getActiveLineCount db b) + 1 \<le> n \<longrightarrow>
            insertLineAt db b n c = insertLineAt db b (int (getActiveLineCount db b) + 1) c)"
proof (intro conjI impI)
  define k where "k = min (max n 1) (int (getActiveLineCount db b) + 1)"
  note cases = insertLinesAt_cases [OF k_def, of "[c]"]
  have ne: "filter (\<lambda>l. l_fileId l = b_fileId b \<and> b_id b \<in> set (l_blocks l)) (lines db) \<noteq> []"
    using hasLine by (auto simp: filter_empty_conv)
  have "\<exists>db'. insertLinesAt db b n [c] = (Inr [nextLineId db], db') \<and>
          nextLineId db \<in> set (map l_id (lines db'))"
  proof -
    consider "k = 1" | "k \<noteq> 1" "k = int (getActiveLineCount db b) + 1"
      | "k \<noteq> 1" "k \<noteq> int (getActiveLineCount db b) + 1"
      by blast
    then show ?thesis
    proof cases
      case 1
      obtain nextLine where nl: "findFirstOrThrow (sort_key l_order
          (filter (\<lambda>l. l_fileId l = b_fileId b \<and> b_id b \<in> set (l_blocks l)) (lines db))) = Inr nextLine"
        using findFirstOrThrow_nonempty [of "sort_key l_order
          (filter (\<lambda>l. l_fileId l = b_fileId b \<and> b_id b \<in> set (l_blocks l)) (lines db))"] ne
        by auto
      define previousLine where "previousLine =
          findFirst (sort_key (\<lambda>l. - l_order l)
            (filter (\<lambda>l. l_fileId l = b_fileId b \<and> b_id b \<notin> set (l_blocks l) \<and>
                         l_order l < l_order nextLine) (lines db)))"
      obtain db' created where
        i: "insertLines db b [c] previousLine (Some nextLine) (Some Next) = (db', created)"
        by (cases "insertLines db b [c] previousLine (Some nextLine) (Some Next)")
      have p: "prependLines db b [c] = (Inr created, db')"
        using i unfolding previousLine_def by (simp add: prependLines_def nl)
      show ?thesis
        unfolding cases using 1 p insertLines_single [OF i] by simp
    next
      case 2
      obtain previousLine where nl: "findFirstOrThrow (sort_key (\<lambda>l. - l_order l)
          (filter (\<lambda>l. l_fileId l = b_fileId b \<and> b_id b \<in> set (l_blocks l)) (lines db))) = Inr previousLine"
        using findFirstOrThrow_nonempty [of "sort_key (\<lambda>l. - l_order l)
          (filter (\<lambda>l. l_fileId l = b_fileId b \<and> b_id b \<in> set (l_blocks l)) (lines db))"] ne
        by auto
      define nextLine where "nextLine =
          findFirst (sort_key l_order
            (filter (\<lambda>l. l_fileId l = b_fileId b \<and> b_id b \<notin> set (l_blocks l) \<and>
                         l_order previousLine < l_order l) (lines db)))"
      obtain db' created where
        i: "insertLines db b [c] (Some previousLine) nextLine (Some Previous) = (db', created)"
        by (cases "insertLines db b [c] (Some previousLine) nextLine (Some Previous)")
      have p: "appendLines db b [c] = (Inr created, db')"
        using i unfolding nextLine_def by (simp add: appendLines_def nl)
      show ?thesis
        unfolding cases using 2 p insertLines_single [OF i] by simp
    next
      case 3
      then have r: "2 \<le> k" "k \<le> int (getActiveLineCount db b)"
        by (auto simp: k_def)
      then have "k \<le> int (length (getActiveLines db b))"
        using activeLineCount_le [OF d, of b] by simp
      with r obtain pl cl where a: "arrayAt (getActiveLines db b) (k - 2) = Some pl"
        "arrayAt (getActiveLines db b) (k - 1) = Some cl"
        by (auto simp: arrayAt_def)
      obtain db' created where i: "insertLines db b [c] (Some pl) (Some cl) (Some Previous) = (db', created)"
        by (cases "insertLines db b [c] (Some pl) (Some cl) (Some Previous)")
      then show ?thesis
        unfolding cases using 3 a insertLines_single [OF i] by simp
    qed
  qed
  then show "\<exists>lid db'. insertLineAt db b n c = (Inr (Some lid), db') \<and>
            lid \<notin> set (map l_id (lines db)) \<and> lid \<in> set (map l_id (lines db'))"
    using fresh by (auto simp: insertLineAt_def findFirst_def)
next
  assume "n \<le> 1"
  then show "insertLineAt db b n c = insertLineAt db b 1 c"
    by (simp add: insertLineAt_def insertLinesAt_def Let_def max_def)
next
  assume "int (getActiveLineCount db b) + 1 \<le> n"
  then show "insertLineAt db b n c = insertLineAt db b (int (getActiveLineCount db b) + 1) c"
    by (simp add: insertLineAt_def insertLinesAt_def Let_def max_def min_def)
qed

lemma insertLineAt_total_example:
  "(\<exists>lid db'. insertLineAt exWithChild (exBlock 3) 100 ''z'' = (Inr (Some lid), db') \<and>
      lid \<notin> set (map l_id (lines exWithChild)) \<and> lid \<in> set (map l_id (lines db'))) \<and>
   insertLineAt exWithChild (exBlock 3) 100 ''z'' =
     insertLineAt exWithChild (exBlock 3) (int (getActiveLineCount exWithChild (exBlock 3)) + 1) ''z'' \<and>
   insertLineAt exWithChild (exBlock 3) 0 ''z'' = insertLineAt exWithChild (exBlock 3) 1 ''z''"
proof -
  have h1: "\<exists>l\<in>set (lines exWithChild). l_fileId l = b_fileId (exBlock 3) \<and>
      b_id (exBlock 3) \<in> set (l_blocks l)"
    by code_simp
  have h2: "distinct (map (\<lambda>v. (v_lineId v, v_timestamp v)) (versions exWithChild))"
    by code_simp
  have h3: "nextLineId exWithChild \<notin> set (map l_id (lines exWithChild))"
    by code_simp
  have h4: "int (getActiveLineCount exWithChild (exBlock 3)) + 1 \<le> 100"
    by code_simp
  have h5: "(0::int) \<le> 1"
    by simp
  note high = insertLineAt_total [OF h1 h2 h3, of 100 "''z''"]
  note low = insertLineAt_total [OF h1 h2 h3, of 0 "''z''"]
  show ?thesis
    using high [THEN conjunct1] high [THEN conjunct2, THEN conjunct2, rule_format, OF h4]
      low [THEN conjunct2, THEN conjunct1, rule_format, OF h5]
    by (intro conjI)
qed

text \<open>
  A block that claims no line: the child created on the range from line 2 to line 1
  claims none, and \<^verbatim>\<open>insertLineAt\<close> on it ends in Prisma's NotFoundError
  (\<^verbatim>\<open>findFirstOrThrow\<close> in \<^verbatim>\<open>prependLines\<close>) without creating a line.
\<close>

lemma insertLineAt_no_lines:
  "createChild (exInserted 3) (exBlock 3) \<lparr> startLine = 2, endLine = 1 \<rparr>
     = (Inr (Some exChild), exEmptyChildStore) \<and>
   getLines exEmptyChildStore exChild = [] \<and>
   insertLineAt exEmptyChildStore exChild 1 ''z'' = (Inl NotFoundError, exEmptyChildStore)"
  by code_simp

subsection \<open>The in-memory Block\<close>

lemma find_rev_Some:
  "find P xs = Some x \<Longrightarrow> \<exists>y. find P (rev xs) = Some y"
  by (cases "find P (rev xs)") (auto simp: find_None_iff find_Some_iff)

text \<open>
  C10. \<open>insert_line_at\<close> is never to fail: a line number below 1 is clamped to 1 and the
  line is prepended. \<^verbatim>\<open>Block.insertLine\<close> clamps the line number and has the branch
  that prepends, but before it asks for the children at line number
  \<^verbatim>\<open>Math.min(adjustedLineNumber - 1, lastLineNumber)\<close>, which is 0 for every request with
  \<open>n \<le> 1\<close>: with line numbers that start at 1, \<^verbatim>\<open>lineNumberToPosition\<close> throws, and no
  line is created. For every block with an active line whose first active line has a
  line number of at least 1, whatever the absent line operations compute, the call
  with \<open>n \<le> 1\<close> ends in that error.
\<close>

theorem insertLine_at_first_line:
  assumes f: "mGetFirstActiveLine blk = Some firstActive"
    and one: "1 \<le> getLineNumber ops firstActive"
    and n: "n \<le> 1"
  shows "mInsertLine ops children blk n content = (Inl InvalidLineNumber, resetVersionMerging blk)"
proof -
  let ?b = "resetVersionMerging blk"
  have f': "mGetFirstActiveLine ?b = Some firstActive"
    using f by (simp add: mGetFirstActiveLine_def resetVersionMerging_def)
  then obtain lastActive where l: "mGetLastActiveLine ?b = Some lastActive"
    unfolding mGetFirstActiveLine_def mGetLastActiveLine_def by (blast dest: find_rev_Some)
  define L where "L = getLineNumber ops lastActive"
  have ll: "mGetLastLineNumber ops ?b = Inr L"
    by (simp add: mGetLastLineNumber_def l L_def)
  define k where "k = min (min (max n 1) (L + 1) - 1) L"
  have "k < 1"
    using n unfolding k_def by auto
  then have "\<not> getLineNumber ops firstActive \<le> k"
    using one by simp
  then have "containsLineNumber ops ?b k = Inr False"
    by (simp add: containsLineNumber_def mGetFirstLineNumber_def f')
  then have "getChildrenByLineNumber ops children ?b k = Inl InvalidLineNumber"
    by (simp add: getChildrenByLineNumber_def lineNumberToPosition_def)
  then show ?thesis
    unfolding mInsertLine_def Let_def ll k_def by simp
qed

theorem insertLine_at_first_line_witness:
  "mInsertLine exLineOps [] (exMemChanged (mkNV 2 2 True ''Y'' False) []) 1 ''a'' =
     (Inl InvalidLineNumber, exMemChanged (mkNV 2 2 True ''Y'' False) []) \<and>
   mInsertLine exLineOps [] (exMemChanged (mkNV 2 2 True ''Y'' False) []) 0 ''a'' =
     (Inl InvalidLineNumber, exMemChanged (mkNV 2 2 True ''Y'' False) []) \<and>
   map ml_node (mb_lines (snd (mInsertLine exLineOps []
                                 (exMemChanged (mkNV 2 2 True ''Y'' False) []) 2 ''a''))) = [1, 2]"
proof -
  have f: "mGetFirstActiveLine (exMemChanged (mkNV 2 2 True ''Y'' False) []) =
             Some (hd (mb_lines (exMemChanged (mkNV 2 2 True ''Y'' False) [])))"
    by code_simp
  have one: "1 \<le> getLineNumber exLineOps (hd (mb_lines (exMemChanged (mkNV 2 2 True ''Y'' False) [])))"
    by code_simp
  have r: "resetVersionMerging (exMemChanged (mkNV 2 2 True ''Y'' False) [])
             = exMemChanged (mkNV 2 2 True ''Y'' False) []"
    by code_simp
  have a: "map ml_node (mb_lines (snd (mInsertLine exLineOps []
                                 (exMemChanged (mkNV 2 2 True ''Y'' False) []) 2 ''a''))) = [1, 2]"
    by code_simp
  show ?thesis
    using insertLine_at_first_line [OF f one, of 1 "[]" "''a''"]
      insertLine_at_first_line [OF f one, of 0 "[]" "''a''"] r a
    by simp
qed

section \<open>The affected blocks of a change\<close>

text \<open>
  C9. \<open>change_lines\<close> is to return the ids of all blocks that claim a line the change
  touched, the newly inserted lines included. \<^verbatim>\<open>BlockProxy.changeLines\<close> collects the
  affected lines in its local \<^verbatim>\<open>deleteLine\<close> and \<^verbatim>\<open>updateLine\<close> only and drops the lines
  that \<^verbatim>\<open>insertLinesAt\<close> returns. For the change that appends a line \<open>b\<close> below the only
  line of the file, no line is deleted or updated: the call inserts line 2, which the
  root block claims, and returns no block id at all.
\<close>

theorem changeLines_insertion_reports_no_block:
  "changeLines exOneLine ''f'' (exBlock 1) exAppendChange = (Inr [], exAfterAppend) \<and>
   map l_id (lines exOneLine) = [1] \<and>
   map l_id (lines exAfterAppend) = [1, 2] \<and>
   getBlockIds exAfterAppend 2 = [''f:root'']"
  by code_simp

section \<open>Applying the current index\<close>

lemma indexOf_Some:
  "indexOf xs v = Some i \<Longrightarrow> i < length xs \<and> xs ! i = v \<and> (\<forall>j<i. xs ! j \<noteq> v)"
proof (induction xs arbitrary: i)
  case Nil
  then show ?case by simp
next
  case (Cons x xs)
  show ?case
  proof (cases "x = v")
    case True
    with Cons.prems show ?thesis by simp
  next
    case False
    with Cons.prems obtain k where k: "indexOf xs v = Some k" and i: "i = Suc k"
      by auto
    from Cons.IH [OF k] False show ?thesis
      unfolding i by (auto simp: nth_Cons split: nat.splits)
  qed
qed

lemma filter_le_last:
  fixes f :: "'a \<Rightarrow> int"
  assumes s: "sorted (map f xs)" and ne: "filter (\<lambda>v. f v \<le> T) xs \<noteq> []"
    and l: "f (last (filter (\<lambda>v. f v \<le> T) xs)) \<le> t" and le: "t \<le> T"
  shows "filter (\<lambda>v. f v \<le> t) xs = filter (\<lambda>v. f v \<le> T) xs"
proof -
  let ?F = "filter (\<lambda>v. f v \<le> T) xs"
  have sf: "sorted (map f ?F)"
    using s by (rule sorted_filter)
  have "\<forall>x\<in>set ?F. f x \<le> f (last ?F)"
  proof
    fix x assume "x \<in> set ?F"
    then obtain i where i: "i < length ?F" and x: "?F ! i = x"
      unfolding in_set_conv_nth by blast
    have "map f ?F ! i \<le> map f ?F ! (length ?F - 1)"
      using sf i by (intro sorted_nth_mono) auto
    then show "f x \<le> f (last ?F)"
      using i x ne by (simp add: last_conv_nth)
  qed
  then have a: "\<forall>x\<in>set ?F. f x \<le> t"
    using l by fastforce
  have "filter (\<lambda>v. f v \<le> t) xs = filter (\<lambda>v. f v \<le> t) ?F"
    unfolding filter_filter by (rule filter_cong [OF refl]) (use le in auto)
  also have "\<dots> = ?F"
    using a by (simp only: filter_id_conv)
  finally show ?thesis .
qed

lemma headAt_earlier:
  assumes s: "sorted (map nv_timestamp H)"
    and p: "list_all (\<lambda>v. \<not> nv_isPreInsertion v) (tl H)"
    and h: "headAt H T = Some cur"
    and le: "t \<le> T"
    and c: "nv_isPreInsertion cur \<or> nv_timestamp cur \<le> t"
  shows "headAt H t = Some cur"
proof (cases "filter (\<lambda>v. nv_timestamp v \<le> T) H = []")
  case True
  then have "filter (\<lambda>v. nv_timestamp v \<le> t) H = []"
    using le by (auto simp: filter_empty_conv)
  with True h show ?thesis
    by (simp add: headAt_def)
next
  case False
  then have cur: "cur = last (filter (\<lambda>v. nv_timestamp v \<le> T) H)"
    using h by (auto simp: headAt_def split: list.splits)
  show ?thesis
  proof (cases "nv_timestamp cur \<le> t")
    case True
    have "filter (\<lambda>v. nv_timestamp v \<le> t) H = filter (\<lambda>v. nv_timestamp v \<le> T) H"
      using s False True le unfolding cur by (rule filter_le_last)
    then show ?thesis
      using h by (simp add: headAt_def)
  next
    case nle: False
    with c have pre: "nv_isPreInsertion cur"
      by simp
    from False obtain h0 R where H: "H = h0 # R"
      by (cases H) auto
    have R: "\<forall>v\<in>set R. \<not> nv_isPreInsertion v"
      using p by (simp add: H list_all_iff)
    have h0T: "nv_timestamp h0 \<le> T"
    proof (rule ccontr)
      assume n: "\<not> nv_timestamp h0 \<le> T"
      have "\<forall>v\<in>set R. nv_timestamp h0 \<le> nv_timestamp v"
        using s by (simp add: H)
      with n have "filter (\<lambda>v. nv_timestamp v \<le> T) H = []"
        by (auto simp: H filter_empty_conv)
      with False show False ..
    qed
    have FR: "filter (\<lambda>v. nv_timestamp v \<le> T) R = []"
    proof (rule ccontr)
      assume n: "filter (\<lambda>v. nv_timestamp v \<le> T) R \<noteq> []"
      then have "cur = last (filter (\<lambda>v. nv_timestamp v \<le> T) R)"
        using cur h0T by (simp add: H)
      then have "cur \<in> set R"
        using last_in_set [OF n] by auto
      with R pre show False
        by blast
    qed
    then have c0: "cur = h0"
      using cur h0T by (simp add: H)
    have "filter (\<lambda>v. nv_timestamp v \<le> t) R = []"
      using FR le by (auto simp: filter_empty_conv)
    then show ?thesis
      by (simp add: headAt_def H c0 findFirst_def)
  qed
qed

lemma getCurrentText_reset: "getCurrentText (resetVersionMerging blk) = getCurrentText blk"
  by (simp add: getCurrentText_def mGetActiveLines_def resetVersionMerging_def)



lemma currentVersion_head:
  assumes cv: "mGetCurrentVersion blk = Some cv"
  shows "\<not> nv_isPreInsertion cv \<and> (\<exists>l\<in>set (mb_lines blk). ml_currentVersion l = cv) \<and>
         (\<forall>l\<in>set (mb_lines blk). nv_isPreInsertion (ml_currentVersion l) \<or>
                                   nv_timestamp (ml_currentVersion l) \<le> nv_timestamp cv)"
  using findFirst_sort_desc [OF cv [unfolded mGetCurrentVersion_def]]
  by (auto simp: mGetHeads_def)


lemma loadTimestamp_current:
  assumes a: "list_all (loadedAt T) (mb_lines blk)" and cv: "mGetCurrentVersion blk = Some cv"
  shows "map (specLoadTimestamp (nv_timestamp cv)) (mb_lines blk) = mb_lines blk"
proof -
  note h = currentVersion_head [OF cv]
  from h have np: "\<not> nv_isPreInsertion cv"
    and greatest: "\<forall>l\<in>set (mb_lines blk). nv_isPreInsertion (ml_currentVersion l) \<or>
                     nv_timestamp (ml_currentVersion l) \<le> nv_timestamp cv"
    by blast+
  from h obtain l0 where l0: "l0 \<in> set (mb_lines blk)" and c0: "ml_currentVersion l0 = cv"
    by blast
  have "loadedAt T l0"
    using a l0 by (simp add: list_all_iff)
  then have "nv_isPreInsertion cv \<or> nv_timestamp cv \<le> T"
    unfolding loadedAt_def c0 by blast
  with np have le: "nv_timestamp cv \<le> T"
    by blast
  have "specLoadTimestamp (nv_timestamp cv) l = l" if l: "l \<in> set (mb_lines blk)" for l
  proof -
    have "loadedAt T l"
      using a l by (simp add: list_all_iff)
    then have s: "sorted (map nv_timestamp (ml_history l))"
      and p: "list_all (\<lambda>v. \<not> nv_isPreInsertion v) (tl (ml_history l))"
      and hd: "headAt (ml_history l) T = Some (ml_currentVersion l)"
      unfolding loadedAt_def by blast+
    have c: "nv_isPreInsertion (ml_currentVersion l) \<or>
             nv_timestamp (ml_currentVersion l) \<le> nv_timestamp cv"
      using greatest l by blast
    have "headAt (ml_history l) (nv_timestamp cv) = Some (ml_currentVersion l)"
      using s p hd le c by (rule headAt_earlier)
    then show ?thesis
      by (simp add: specLoadTimestamp_def)
  qed
  then show ?thesis
    by (simp add: map_idI)
qed


lemma currentIndex_entry:
  assumes c: "getCurrentVersionIndex blk = Inr c"
    and np: "\<not> nv_isPreInsertion (mGetTimeline blk ! c)"
  shows "c < length (mGetTimeline blk) \<and> mGetCurrentVersion blk = Some (mGetTimeline blk ! c) \<and>
         (\<forall>j<c. mGetTimeline blk ! j \<noteq> mGetTimeline blk ! c)"
proof -
  from c obtain cv where cv: "mGetCurrentVersion blk = Some cv"
    by (auto simp: getCurrentVersionIndex_def split: option.splits)
  define cur where "cur = (case previousOf blk cv of
                             Some p \<Rightarrow> if nv_isPreInsertion p then p else cv
                           | None \<Rightarrow> cv)"
  have i: "indexOf (mGetTimeline blk) cur = Some c"
    using c unfolding getCurrentVersionIndex_def cv cur_def Let_def
    by (auto split: option.splits)
  note e = indexOf_Some [OF i]
  have "cur = cv"
    using np e unfolding cur_def by (auto split: option.splits if_splits)
  with e cv show ?thesis
    by simp
qed

text \<open>
  C8 (amended). Take an in-memory Block in which loading a timestamp makes \<open>head_at\<close> of
  it the head of a line, and whose lines are all loaded at one timestamp \<open>T\<close>: the
  history of each line is in the order of its timestamps, no version after the first is
  a PRE_INSERTION version, the head is \<open>head_at(T)\<close>, and a head that is not a
  PRE_INSERTION version is stamped at or before \<open>T\<close>. If the entry of the timeline at the
  current version index is not a PRE_INSERTION version, then \<open>apply_index\<close> of the current
  version index succeeds and changes nothing but the reset of the version merging; the
  text of the block and its current version index are the same after the call as
  before it.
\<close>

theorem applyIndex_current_index:
  assumes ops: "loadTimestamp ops = specLoadTimestamp"
    and a: "list_all (loadedAt T) (mb_lines blk)"
    and c: "getCurrentVersionIndex blk = Inr c"
    and np: "\<not> nv_isPreInsertion (mGetTimeline blk ! c)"
  shows "mApplyIndex ops blk (int c) = (Inr (), blk\<lparr>mb_lastModifiedLine := None\<rparr>) \<and>
         getCurrentText (blk\<lparr>mb_lastModifiedLine := None\<rparr>) = getCurrentText blk \<and>
         getCurrentVersionIndex (blk\<lparr>mb_lastModifiedLine := None\<rparr>) = Inr c"
proof -
  note e = currentIndex_entry [OF c np]
  from e have n: "c < length (mGetTimeline blk)"
    and cv: "mGetCurrentVersion blk = Some (mGetTimeline blk ! c)"
    and first: "\<forall>j<c. mGetTimeline blk ! j \<noteq> mGetTimeline blk ! c"
    by simp_all
  have prev: "0 < c \<Longrightarrow> mGetTimeline blk ! (c - 1) \<noteq> mGetTimeline blk ! c"
    using first by simp
  have snap: "snapRule (memContext ops (resetVersionMerging blk)) (mGetTimeline blk) c
                (mGetTimeline blk ! c) = Some (mGetTimeline blk ! c)"
    using prev np by (auto simp: snapRule_def memContext_def Let_def)
  have "mApplyTimestamp ops (resetVersionMerging blk) (nv_timestamp (mGetTimeline blk ! c))
          = resetVersionMerging blk"
    using loadTimestamp_current [OF a cv]
    by (simp add: mApplyTimestamp_def resetVersionMerging_def ops)
  then have "mApplyIndex ops blk (int c) = (Inr (), resetVersionMerging blk)"
    by (simp add: mApplyIndex_nat [OF n c] snap)
  moreover have "getCurrentText (resetVersionMerging blk) = getCurrentText blk"
    by (rule getCurrentText_reset)
  moreover have "getCurrentVersionIndex (resetVersionMerging blk) = Inr c"
    using c by simp
  ultimately show ?thesis
    by (simp add: resetVersionMerging_def)
qed

theorem applyIndex_current_index_witness:
  "mApplyIndex specOps (exMemChanged (mkNV 2 2 True ''Y'' False) []) 1 =
     (Inr (), exMemChanged (mkNV 2 2 True ''Y'' False) []) \<and>
   getCurrentText (exMemChanged (mkNV 2 2 True ''Y'' False) []) = ''Y''"
proof -
  have h1: "loadTimestamp specOps = specLoadTimestamp"
    by (simp add: specOps_def)
  have h2: "list_all (loadedAt 2) (mb_lines (exMemChanged (mkNV 2 2 True ''Y'' False) []))"
    by code_simp
  have h3: "getCurrentVersionIndex (exMemChanged (mkNV 2 2 True ''Y'' False) []) = Inr 1"
    by code_simp
  have h4: "\<not> nv_isPreInsertion (mGetTimeline (exMemChanged (mkNV 2 2 True ''Y'' False) []) ! 1)"
    by code_simp
  have e: "(exMemChanged (mkNV 2 2 True ''Y'' False) [])\<lparr>mb_lastModifiedLine := None\<rparr>
             = exMemChanged (mkNV 2 2 True ''Y'' False) []"
    by code_simp
  have t: "getCurrentText (exMemChanged (mkNV 2 2 True ''Y'' False) []) = ''Y''"
    by code_simp
  show ?thesis
    using applyIndex_current_index [OF h1 h2 h3 h4] e t by simp
qed

text \<open>
  The claim as stated fails where the current entry is a PRE_INSERTION version. In
  \<open>exMemInserted\<close> with the INSERTION as the head of line 2, the block shows both lines
  and its current version index is 1, the PRE_INSERTION entry of line 2. That entry is
  not a head and has no successor in the timeline, so no snap rule applies:
  \<^verbatim>\<open>applyIndex(1)\<close> applies the timestamp of the PRE_INSERTION itself, which hides
  line 2, and the current version index becomes 0.
\<close>

theorem applyIndex_current_index_counterexample:
  "getCurrentVersionIndex (exMemInserted (mkNV 3 3 True ''new'' False)) = Inr 1 \<and>
   getCurrentText (exMemInserted (mkNV 3 3 True ''new'' False)) = [CHR ''x'', CHR 0x0A, CHR ''n'', CHR ''e'', CHR ''w''] \<and>
   mGetTimeline (exMemInserted (mkNV 3 3 True ''new'' False)) ! 1 = mkNV 2 2 False [] True \<and>
   list_all (loadedAt 3) (mb_lines (exMemInserted (mkNV 3 3 True ''new'' False))) \<and>
   mApplyIndex specOps (exMemInserted (mkNV 3 3 True ''new'' False)) 1 =
     (Inr (), (exMemInserted (mkNV 2 2 False [] True))\<lparr>mb_lastModifiedLine := None\<rparr>) \<and>
   getCurrentText ((exMemInserted (mkNV 2 2 False [] True))\<lparr>mb_lastModifiedLine := None\<rparr>) = ''x'' \<and>
   getCurrentVersionIndex ((exMemInserted (mkNV 2 2 False [] True))\<lparr>mb_lastModifiedLine := None\<rparr>) = Inr 0"
  by code_simp

end
